theory Spec2Isabelle
  imports Complex_Main "HOL-Library.Sublist" "HOL-Library.Multiset"
begin

section \<open>The stock price dashboard of \<^verbatim>\<open>streamlit2/main.py\<close>\<close>

text \<open>
  The script reads one CSV table per company, lower-cases and trims the column labels,
  converts the \<^verbatim>\<open>date\<close> column, sorts by it, filters by a range of days picked on a
  slider, and fills four tabs (line chart, bar chart, comparison, forecast). The model
  covers that data path, from the tables \<^verbatim>\<open>pd.read_csv\<close> returns to the elements placed
  in each tab. The page header (logo, title), the description panel and the closing
  text block carry none of the properties below and are left out.

  What the libraries do is kept as small as the script needs: a table is a list of labels
  and a list of rows, what the script calls on Python and pandas for (trimming and
  lower-casing a label, converting a column of dates, printing a float) is a parameter
  of the model, and an uncaught exception ends the run with the elements written so far.
\<close>

subsection \<open>Python values and exceptions\<close>

datatype py_error =
    KeyError              \<comment> \<open>a missing dictionary key or column label\<close>
  | ValueError            \<comment> \<open>a library call rejects its argument\<close>
  | IndexError            \<comment> \<open>a list index out of range\<close>
  | FileNotFoundError     \<comment> \<open>\<^verbatim>\<open>read_csv\<close> on a path with no file\<close>
  | ParserError           \<comment> \<open>\<^verbatim>\<open>read_csv\<close> on a file that is not a table\<close>
  | WidgetError           \<comment> \<open>\<^verbatim>\<open>st.slider\<close> without bounds to offer\<close>
  | LengthMismatchError   \<comment> \<open>the metric's sequences differ in length\<close>

text \<open>A cell as \<^verbatim>\<open>read_csv\<close> returns it: a number, a text, or nothing (NaN).\<close>

datatype cell = Num rat | Text string | Blank

text \<open>
  An instant is a count of nanoseconds since the epoch, as in a \<^verbatim>\<open>datetime64[ns]\<close>
  column; \<open>None\<close> is \<^verbatim>\<open>NaT\<close>. A calendar day (what \<^verbatim>\<open>.date()\<close> returns and the
  slider offers) is a count of days since the epoch.
\<close>

type_synonym stamp = "int option"

definition day_ns :: int where
  "day_ns = 86400000000000"

definition date_of :: "int \<Rightarrow> int" where
  \<comment> \<open>\<^verbatim>\<open>Timestamp.date()\<close>: the time of day is dropped\<close>
  "date_of t = t div day_ns"

definition midnight :: "int \<Rightarrow> int" where
  \<comment> \<open>\<^verbatim>\<open>pd.to_datetime(d)\<close> of a calendar day \<^verbatim>\<open>d\<close>: that day at 00:00\<close>
  "midnight d = d * day_ns"

subsection \<open>What the script takes from Python and pandas\<close>

text \<open>
  Four library routines decide what the script does and are not part of it:
  \<^verbatim>\<open>str.strip\<close> and \<^verbatim>\<open>str.lower\<close> (line 38), which work on Unicode text,
  \<^verbatim>\<open>pd.to_datetime\<close> on a column (line 42), which raises or returns the instants, and
  the printing of a float with four decimals (line 132). The model takes them as
  parameters, and every general statement below holds for any of them. A label is the
  list of the bytes of its text; the script compares labels with ASCII texts only.
\<close>

record library =
  str_strip :: "string \<Rightarrow> string"
  str_lower :: "string \<Rightarrow> string"
  to_datetime :: "cell list \<Rightarrow> py_error + stamp list"
  format_4f :: "rat \<Rightarrow> string"

subsection \<open>Tables\<close>

text \<open>
  A table as \<^verbatim>\<open>read_csv\<close> returns it. A row shorter than the header reads as padded with
  NaN, which is what \<^verbatim>\<open>read_csv\<close> does with a short line.
\<close>

record frame =
  columns :: "string list"
  rows :: "cell list list"

definition cell_at :: "nat \<Rightarrow> cell list \<Rightarrow> cell" where
  "cell_at i r = (if i < length r then r ! i else Blank)"

fun positions :: "string \<Rightarrow> string list \<Rightarrow> nat \<Rightarrow> nat list" where
  "positions c [] i = []"
| "positions c (l # ls) i = (if l = c then i # positions c ls (Suc i) else positions c ls (Suc i))"

text \<open>
  \<^verbatim>\<open>df[c]\<close> where a one-dimensional column is expected: a missing label raises
  \<^verbatim>\<open>KeyError\<close>; a label carried by two columns selects a two-dimensional table, which
  every consumer in the script (\<^verbatim>\<open>to_datetime\<close>, the chart, the metric) rejects.
\<close>

definition getitem :: "string list \<Rightarrow> cell list list \<Rightarrow> string \<Rightarrow> py_error + cell list" where
  "getitem cols rs c =
     (case positions c cols 0 of
        [] \<Rightarrow> Inl KeyError
      | [i] \<Rightarrow> Inr (map (cell_at i) rs)
      | _ \<Rightarrow> Inl ValueError)"

definition normalize :: "library \<Rightarrow> frame \<Rightarrow> frame" where
  \<comment> \<open>\<^verbatim>\<open>df.columns = [col.strip().lower() for col in df.columns]\<close>\<close>
  "normalize lib df = df\<lparr>columns := map (\<lambda>col. str_lower lib (str_strip lib col)) (columns df)\<rparr>"

text \<open>
  A table whose \<^verbatim>\<open>date\<close> column has been converted: each row is paired with the
  instant now stored under \<^verbatim>\<open>date\<close>; the other columns are read from the row's cells.
\<close>

record dated =
  dcolumns :: "string list"
  drows :: "(stamp \<times> cell list) list"

text \<open>
  The assignment \<^verbatim>\<open>df["date"] = ...\<close> raises \<^verbatim>\<open>ValueError\<close> when the lengths differ.
\<close>

definition assign_date :: "library \<Rightarrow> frame \<Rightarrow> py_error + dated" where
  \<comment> \<open>\<^verbatim>\<open>df["date"] = pd.to_datetime(df["date"])\<close>\<close>
  "assign_date lib df =
     (case getitem (columns df) (rows df) ''date'' of
        Inl e \<Rightarrow> Inl e
      | Inr col \<Rightarrow>
          (case to_datetime lib col of
             Inl e \<Rightarrow> Inl e
           | Inr ds \<Rightarrow>
               if length ds \<noteq> length (rows df) then Inl ValueError
               else Inr \<lparr>dcolumns = columns df, drows = zip ds (rows df)\<rparr>))"

definition stamp_key :: "stamp \<times> cell list \<Rightarrow> int" where
  "stamp_key x = (case fst x of Some t \<Rightarrow> t | None \<Rightarrow> 0)"

definition sort_values :: "dated \<Rightarrow> dated" where
  \<comment> \<open>\<^verbatim>\<open>df.sort_values("date")\<close>: ascending, rows without a date last. The order
      among rows of equal date is not promised by pandas; the model keeps them as they
      were, and no statement below depends on it.\<close>
  "sort_values df =
     df\<lparr>drows := sort_key stamp_key (filter (\<lambda>x. fst x \<noteq> None) (drows df))
                    @ filter (\<lambda>x. fst x = None) (drows df)\<rparr>"

definition ge_stamp :: "stamp \<Rightarrow> int \<Rightarrow> bool" where
  \<comment> \<open>\<^verbatim>\<open>df["date"] >= t\<close>, elementwise: a comparison with NaT is False\<close>
  "ge_stamp d t = (case d of None \<Rightarrow> False | Some u \<Rightarrow> t \<le> u)"

definition le_stamp :: "stamp \<Rightarrow> int \<Rightarrow> bool" where
  "le_stamp d t = (case d of None \<Rightarrow> False | Some u \<Rightarrow> u \<le> t)"

definition range_filter :: "int \<times> int \<Rightarrow> dated \<Rightarrow> dated" where
  \<comment> \<open>\<^verbatim>\<open>df[(df["date"] >= pd.to_datetime(date_range[0])) &
            (df["date"] <= pd.to_datetime(date_range[1]))]\<close>: a new table, \<^verbatim>\<open>df\<close> is kept\<close>
  "range_filter date_range df =
     \<lparr>dcolumns = dcolumns df,
      drows = filter (\<lambda>x. ge_stamp (fst x) (midnight (fst date_range))
                         \<and> le_stamp (fst x) (midnight (snd date_range))) (drows df)\<rparr>"

definition filter_statement :: "int \<times> int \<Rightarrow> dated \<Rightarrow> dated \<times> dated" where
  \<comment> \<open>the statement of lines 63 and 64: the table \<^verbatim>\<open>df\<close> after it, and the table it
      binds to \<^verbatim>\<open>df_filtered\<close>\<close>
  "filter_statement date_range df = (df, range_filter date_range df)"

subsection \<open>Files\<close>

definition files :: "(string \<times> string) list" where
  "files =
     [(''Apple (AAPL)'', ''df_AAPL.csv''),
      (''Anheuser-Busch (ABNB)'', ''df_ABNB.csv''),
      (''Google (GOOG)'', ''df_GOOG.csv''),
      (''Amazon (AMZN)'', ''df_AMZN.csv''),
      (''Boeing (BA)'', ''df_BA.csv''),
      (''American Tower (AMT)'', ''df_AMT.csv'')]"

text \<open>
  The folder of the script: a file name has no file, a file \<^verbatim>\<open>read_csv\<close> cannot read,
  or the table \<^verbatim>\<open>read_csv\<close> returns. A path is the file name
  (\<^verbatim>\<open>os.path.join(data_folder, ...)\<close> with the one folder).
\<close>

datatype csv_file = Table frame | Unreadable

type_synonym filesystem = "string \<Rightarrow> csv_file option"

definition read_csv :: "filesystem \<Rightarrow> string \<Rightarrow> py_error + frame" where
  "read_csv fs path =
     (case fs path of
        None \<Rightarrow> Inl FileNotFoundError
      | Some Unreadable \<Rightarrow> Inl ParserError
      | Some (Table df) \<Rightarrow> Inr df)"

definition path_exists :: "filesystem \<Rightarrow> string \<Rightarrow> bool" where
  \<comment> \<open>\<^verbatim>\<open>os.path.exists\<close>\<close>
  "path_exists fs path = (fs path \<noteq> None)"

fun split :: "char \<Rightarrow> string \<Rightarrow> string list" where
  \<comment> \<open>\<^verbatim>\<open>str.split(sep)\<close>\<close>
  "split sep [] = [[]]"
| "split sep (c # cs) =
     (if c = sep then [] # split sep cs
      else (case split sep cs of [] \<Rightarrow> [[c]] | w # ws \<Rightarrow> (c # w) # ws))"

definition symbol_of :: "string \<Rightarrow> py_error + string" where
  \<comment> \<open>\<^verbatim>\<open>files[selected_company].split('_')[1].split('.')[0]\<close>\<close>
  "symbol_of fname =
     (case split (CHR ''_'') fname of
        _ # part # _ \<Rightarrow> (case split (CHR ''.'') part of [] \<Rightarrow> Inl IndexError | s # _ \<Rightarrow> Inr s)
      | _ \<Rightarrow> Inl IndexError)"

subsection \<open>The date range\<close>

definition series_min :: "stamp list \<Rightarrow> stamp" where
  \<comment> \<open>\<^verbatim>\<open>Series.min()\<close>: NaT is skipped; NaT when nothing is left\<close>
  "series_min ds =
     (case List.map_filter (\<lambda>d. d) ds of [] \<Rightarrow> None | t # ts \<Rightarrow> Some (fold min ts t))"

definition series_max :: "stamp list \<Rightarrow> stamp" where
  "series_max ds =
     (case List.map_filter (\<lambda>d. d) ds of [] \<Rightarrow> None | t # ts \<Rightarrow> Some (fold max ts t))"

definition min_date :: "dated \<Rightarrow> int option" where
  \<comment> \<open>\<^verbatim>\<open>df["date"].min().date()\<close>\<close>
  "min_date df = map_option date_of (series_min (map fst (drows df)))"

definition max_date :: "dated \<Rightarrow> int option" where
  \<comment> \<open>\<^verbatim>\<open>df["date"].max().date()\<close>\<close>
  "max_date df = map_option date_of (series_max (map fst (drows df)))"

text \<open>
  \<^verbatim>\<open>st.slider(..., min_value=min_date, max_value=max_date, value=(min_date, max_date))\<close>.
  The user's range is an input of the run; the widget returns it when the slider offers
  it, and its default value, the full span, otherwise. Without a date in the table the
  bounds are NaT and the call does not return.
\<close>

definition slider :: "int option \<Rightarrow> int option \<Rightarrow> (int \<times> int) option \<Rightarrow> py_error + (int \<times> int)" where
  "slider lo hi pick =
     (case (lo, hi) of
        (Some a, Some b) \<Rightarrow>
          (case pick of
             None \<Rightarrow> Inr (a, b)
           | Some (s, e) \<Rightarrow> if a \<le> s \<and> s \<le> e \<and> e \<le> b then Inr (s, e) else Inr (a, b))
      | _ \<Rightarrow> Inl WidgetError)"

subsection \<open>Charts and page elements\<close>

record trace =
  tname :: string
  txs :: "stamp list"
  tys :: "cell list"

datatype chart_kind = LineChart | BarChart

record figure =
  kind :: chart_kind
  title :: "string option"
  x_title :: string
  y_title :: string
  legend_title :: "string option"
  traces :: "trace list"

datatype element =
    Subheader string
  | Plotly_chart figure
  | Markdown string
  | Dataframe dated
  | Info string
  | Caption string
  | Error_box string
  | Warning_box string
  | Write string "string list"
  | Multiselect string "string list"

definition close_of :: "dated \<Rightarrow> string \<Rightarrow> py_error + cell list" where
  \<comment> \<open>the column of that label, read from the rows\<close>
  "close_of df c = getitem (dcolumns df) (map snd (drows df)) c"

definition px :: "chart_kind \<Rightarrow> dated \<Rightarrow> string \<Rightarrow> (string \<times> string) list \<Rightarrow> string option \<Rightarrow> py_error + figure" where
  \<comment> \<open>\<^verbatim>\<open>px.line(df, x="date", y=..., labels=..., title=...)\<close> and \<^verbatim>\<open>px.bar\<close>: one
      unnamed trace of the two columns; an axis is titled by its column unless
      \<^verbatim>\<open>labels\<close> renames it\<close>
  "px k df y labels ttl =
     (case close_of df y of
        Inl e \<Rightarrow> Inl e
      | Inr ys \<Rightarrow>
          Inr \<lparr>kind = k, title = ttl,
               x_title = (case map_of labels ''date'' of None \<Rightarrow> ''date'' | Some l \<Rightarrow> l),
               y_title = (case map_of labels y of None \<Rightarrow> y | Some l \<Rightarrow> l),
               legend_title = None,
               traces = [\<lparr>tname = [], txs = map fst (drows df), tys = ys\<rparr>]\<rparr>)"

definition add_scatter :: "figure \<Rightarrow> stamp list \<Rightarrow> cell list \<Rightarrow> string \<Rightarrow> figure" where
  \<comment> \<open>\<^verbatim>\<open>fig.add_scatter(x=..., y=..., mode="lines", name=...)\<close>\<close>
  "add_scatter fig x y nm = fig\<lparr>traces := traces fig @ [\<lparr>tname = nm, txs = x, tys = y\<rparr>]\<rparr>"

subsection \<open>The metric\<close>

text \<open>
  Modelled from the spec: the metric computer, \<^verbatim>\<open>mean_absolute_error\<close>, which line 5
  imports from \<^verbatim>\<open>sklearn.metrics\<close>; its body is not part of the script. The spec:
  given two equal-length numeric sequences (real values, predicted values), compute
  (1/n) times the sum of the absolute differences; fail with a length mismatch
  condition if the sequences differ in length. With no element there is no mean, and the
  call raises. Numbers are exact rationals; the rounding of binary floating point is not
  modelled.
\<close>

definition mean_absolute_error :: "rat list \<Rightarrow> rat list \<Rightarrow> py_error + rat" where
  "mean_absolute_error y_true y_pred =
     (if length y_true \<noteq> length y_pred then Inl LengthMismatchError
      else if y_true = [] then Inl ValueError
      else Inr (sum_list (map (\<lambda>(r, p). \<bar>r - p\<bar>) (zip y_true y_pred)) / of_nat (length y_true)))"

fun as_numbers :: "cell list \<Rightarrow> py_error + rat list" where
  \<comment> \<open>a numeric sequence; a column with a text or an empty cell is not one, and the
      metric raises on it\<close>
  "as_numbers [] = Inr []"
| "as_numbers (Num q # cs) = (case as_numbers cs of Inl e \<Rightarrow> Inl e | Inr qs \<Rightarrow> Inr (q # qs))"
| "as_numbers (_ # cs) = Inl ValueError"

definition mae_of :: "dated \<Rightarrow> py_error + rat" where
  \<comment> \<open>\<^verbatim>\<open>mean_absolute_error(forecast_df["real_close"], forecast_df["predicted_close"])\<close>\<close>
  "mae_of forecast_df =
     (case close_of forecast_df ''real_close'' of
        Inl e \<Rightarrow> Inl e
      | Inr real_close \<Rightarrow>
          (case close_of forecast_df ''predicted_close'' of
             Inl e \<Rightarrow> Inl e
           | Inr predicted_close \<Rightarrow>
               (case as_numbers real_close of
                  Inl e \<Rightarrow> Inl e
                | Inr y_true \<Rightarrow>
                    (case as_numbers predicted_close of
                       Inl e \<Rightarrow> Inl e
                     | Inr y_pred \<Rightarrow> mean_absolute_error y_true y_pred))))"

subsection \<open>The four tabs\<close>

text \<open>
  A tab returns the elements it has written and the exception that interrupted it, if
  any.
\<close>

definition tab1 :: "dated \<Rightarrow> element list \<times> py_error option" where
  "tab1 df_filtered =
     (case px LineChart df_filtered ''close'' [] (Some ''Closing Price Over Time'') of
        Inl e \<Rightarrow> ([Subheader ''Interactive Line Chart''], Some e)
      | Inr fig \<Rightarrow> ([Subheader ''Interactive Line Chart'', Plotly_chart fig], None))"

definition tab2 :: "dated \<Rightarrow> element list \<times> py_error option" where
  "tab2 df_filtered =
     (case px BarChart df_filtered ''close'' [] (Some ''Closing Price Bar Chart'') of
        Inl e \<Rightarrow> ([Subheader ''Interactive Bar Chart''], Some e)
      | Inr fig \<Rightarrow> ([Subheader ''Interactive Bar Chart'', Plotly_chart fig], None))"

definition compare_options :: "string \<Rightarrow> string list" where
  \<comment> \<open>\<^verbatim>\<open>[k for k in files.keys() if k != selected_company]\<close>\<close>
  "compare_options selected_company = filter (\<lambda>k. k \<noteq> selected_company) (map fst files)"

definition multiselect :: "string list \<Rightarrow> string list \<Rightarrow> string list" where
  \<comment> \<open>\<^verbatim>\<open>st.multiselect\<close>: the user's choices, which the widget takes from its options\<close>
  "multiselect options chosen = filter (\<lambda>k. k \<in> set options) chosen"

fun overlay :: "library \<Rightarrow> filesystem \<Rightarrow> int \<times> int \<Rightarrow> string list \<Rightarrow> figure \<Rightarrow> py_error + figure" where
  \<comment> \<open>the loop \<^verbatim>\<open>for other in others\<close> of lines 88 to 99\<close>
  "overlay lib fs date_range [] fig = Inr fig"
| "overlay lib fs date_range (other # rest) fig =
     (case map_of files other of
        None \<Rightarrow> Inl KeyError
      | Some fname \<Rightarrow>
          (case read_csv fs fname of
             Inl e \<Rightarrow> Inl e
           | Inr raw \<Rightarrow>
               (let other_df = normalize lib raw in
                if ''date'' \<in> set (columns other_df) \<and> ''close'' \<in> set (columns other_df) then
                  (case assign_date lib other_df of
                     Inl e \<Rightarrow> Inl e
                   | Inr converted \<Rightarrow>
                       (let filtered = range_filter date_range (sort_values converted) in
                        case close_of filtered ''close'' of
                          Inl e \<Rightarrow> Inl e
                        | Inr y \<Rightarrow>
                            overlay lib fs date_range rest
                              (add_scatter fig (map fst (drows filtered)) y other)))
                else overlay lib fs date_range rest fig)))"

definition tab3 :: "library \<Rightarrow> filesystem \<Rightarrow> string \<Rightarrow> int \<times> int \<Rightarrow> dated \<Rightarrow> string list
    \<Rightarrow> element list \<times> py_error option" where
  "tab3 lib fs selected_company date_range df_filtered chosen =
     (let options = compare_options selected_company;
          others = multiselect options chosen;
          written = [Subheader ''Compare with Other Companies'',
                     Multiselect ''Select companies to compare'' options]
      in case px LineChart df_filtered ''close'' [(''close'', selected_company)] None of
           Inl e \<Rightarrow> (written, Some e)
         | Inr fig \<Rightarrow>
             (case overlay lib fs date_range others fig of
                Inl e \<Rightarrow> (written, Some e)
              | Inr fig' \<Rightarrow> (written @ [Plotly_chart fig'], None)))"

fun melt :: "dated \<Rightarrow> string list \<Rightarrow> py_error + (stamp \<times> string \<times> cell) list" where
  \<comment> \<open>\<^verbatim>\<open>df.melt(id_vars="date", value_vars=..., var_name="Type", value_name="Price")\<close>:
      the rows (date, Type, Price), one block per value column\<close>
  "melt df [] = Inr []"
| "melt df (v # vs) =
     (case close_of df v of
        Inl e \<Rightarrow> Inl e
      | Inr col \<Rightarrow>
          (case melt df vs of
             Inl e \<Rightarrow> Inl e
           | Inr rest \<Rightarrow> Inr (map (\<lambda>(d, c). (d, v, c)) (zip (map fst (drows df)) col) @ rest)))"

definition px_line_color :: "(stamp \<times> string \<times> cell) list \<Rightarrow> figure" where
  \<comment> \<open>\<^verbatim>\<open>px.line(forecast_long, x="date", y="Price", color="Type", labels=..., title=...)\<close>:
      one trace per value of \<^verbatim>\<open>Type\<close>, in the order of first appearance\<close>
  "px_line_color forecast_long =
     \<lparr>kind = LineChart, title = Some ''Real vs Predicted Closing Prices'',
      x_title = ''Date'', y_title = ''Price'', legend_title = Some ''Legend'',
      traces =
        map (\<lambda>v. \<lparr>tname = v,
                   txs = map fst (filter (\<lambda>x. fst (snd x) = v) forecast_long),
                   tys = map (\<lambda>x. snd (snd x)) (filter (\<lambda>x. fst (snd x) = v) forecast_long)\<rparr>)
            (rev (remdups (rev (map (\<lambda>x. fst (snd x)) forecast_long))))\<rparr>"

definition expected_cols :: "string list" where
  "expected_cols = [''real_close'', ''predicted_close'', ''date'']"

definition tab4 :: "library \<Rightarrow> filesystem \<Rightarrow> string \<Rightarrow> element list \<times> py_error option" where
  "tab4 lib fs symbol =
     (let written = [Subheader ''Forecasted vs Real Prices (RNN Model)''];
          forecast_path = ''forecast_'' @ symbol @ ''.csv''
      in if path_exists fs forecast_path then
           (case read_csv fs forecast_path of
              Inl e \<Rightarrow> (written, Some e)
            | Inr raw \<Rightarrow>
                (case assign_date lib (normalize lib raw) of
                   Inl e \<Rightarrow> (written, Some e)
                 | Inr forecast_df \<Rightarrow>
                     if list_all (\<lambda>c. c \<in> set (dcolumns forecast_df)) expected_cols then
                       (case melt forecast_df [''real_close'', ''predicted_close''] of
                          Inl e \<Rightarrow> (written, Some e)
                        | Inr forecast_long \<Rightarrow>
                            (let shown = written @
                                   [Plotly_chart (px_line_color forecast_long),
                                    Markdown ''**Forecast Table:**'',
                                    Dataframe forecast_df]
                             in case mae_of forecast_df of
                                  Inl e \<Rightarrow> (shown, Some e)
                                | Inr mae \<Rightarrow>
                                    (shown @
                                       [Info ('' **Mean Absolute Error (MAE):** '' @ format_4f lib mae),
                                        Caption ''Forecast generated by an RNN model trained on past 7-day windows of closing prices.''],
                                     None)))
                     else
                       (written @
                          [Error_box '' Forecast file is missing required columns: 'real_close' or 'predicted_close'.'',
                           Write ''Available columns:'' (dcolumns forecast_df)],
                        None)))
         else (written @ [Warning_box '' Forecast file not found for this company.''], None))"

subsection \<open>The script\<close>

text \<open>
  One run of the script: what each tab holds, what is written outside the tabs, and the
  exception that ended the run, if any. The inputs are the conversion of dates, the
  folder, the company picked in the sidebar, the range picked on the slider and the
  companies picked for comparison.
\<close>

record page =
  main_area :: "element list"
  line_tab :: "element list"
  bar_tab :: "element list"
  compare_tab :: "element list"
  forecast_tab :: "element list"
  raised :: "py_error option"

definition blank_page :: page where
  "blank_page =
     \<lparr>main_area = [], line_tab = [], bar_tab = [], compare_tab = [], forecast_tab = [],
      raised = None\<rparr>"

definition tabs :: "library \<Rightarrow> filesystem \<Rightarrow> string \<Rightarrow> string \<Rightarrow> int \<times> int \<Rightarrow> dated
    \<Rightarrow> string list \<Rightarrow> page" where
  "tabs lib fs selected_company symbol date_range df_filtered chosen =
     (case tab1 df_filtered of
        (t1, Some e) \<Rightarrow> blank_page\<lparr>line_tab := t1, raised := Some e\<rparr>
      | (t1, None) \<Rightarrow>
          (case tab2 df_filtered of
             (t2, Some e) \<Rightarrow> blank_page\<lparr>line_tab := t1, bar_tab := t2, raised := Some e\<rparr>
           | (t2, None) \<Rightarrow>
               (case tab3 lib fs selected_company date_range df_filtered chosen of
                  (t3, Some e) \<Rightarrow>
                    blank_page\<lparr>line_tab := t1, bar_tab := t2, compare_tab := t3,
                                raised := Some e\<rparr>
                | (t3, None) \<Rightarrow>
                    (case tab4 lib fs symbol of
                       (t4, e) \<Rightarrow>
                         \<lparr>main_area = [], line_tab = t1, bar_tab = t2, compare_tab = t3,
                          forecast_tab = t4, raised = e\<rparr>))))"

definition load :: "library \<Rightarrow> frame \<Rightarrow> py_error + dated" where
  \<comment> \<open>lines 42 and 43: convert the dates, sort by date\<close>
  "load lib df = (case assign_date lib df of Inl e \<Rightarrow> Inl e | Inr converted \<Rightarrow> Inr (sort_values converted))"

definition dashboard :: "library \<Rightarrow> filesystem \<Rightarrow> string \<Rightarrow> (int \<times> int) option \<Rightarrow> string list \<Rightarrow> page" where
  "dashboard lib fs selected_company pick chosen =
     (case map_of files selected_company of
        None \<Rightarrow> blank_page\<lparr>raised := Some KeyError\<rparr>
      | Some fname \<Rightarrow>
          (case read_csv fs fname of
             Inl e \<Rightarrow> blank_page\<lparr>raised := Some e\<rparr>
           | Inr raw \<Rightarrow>
               (let df = normalize lib raw in
                if ''date'' \<in> set (columns df) \<and> ''close'' \<in> set (columns df) then
                  (case load lib df of
                     Inl e \<Rightarrow> blank_page\<lparr>raised := Some e\<rparr>
                   | Inr df \<Rightarrow>
                       (case symbol_of fname of
                          Inl e \<Rightarrow> blank_page\<lparr>raised := Some e\<rparr>
                        | Inr symbol \<Rightarrow>
                            (case slider (min_date df) (max_date df) pick of
                               Inl e \<Rightarrow> blank_page\<lparr>raised := Some e\<rparr>
                             | Inr date_range \<Rightarrow>
                                 (case filter_statement date_range df of
                                    (df, df_filtered) \<Rightarrow>
                                      tabs lib fs selected_company symbol date_range
                                        df_filtered chosen))))
                else blank_page\<lparr>main_area := [Error_box '' Date not found.'']\<rparr>)))"

subsection \<open>A sample folder\<close>

text \<open>
  Sample data for the examples below: a conversion of dates that reads a few ISO texts
  and takes an empty cell to NaT, as \<^verbatim>\<open>pd.to_datetime\<close> does, and rejects the rest.
\<close>

definition sample_instant :: "cell \<Rightarrow> stamp option" where
  "sample_instant c =
     (case c of
        Blank \<Rightarrow> Some None
      | Num q \<Rightarrow> None
      | Text s \<Rightarrow>
          map_option Some
            (map_of
               [(''2024-01-02'', 19724 * day_ns),
                (''2024-01-03'', 19725 * day_ns),
                (''2024-01-04'', 19726 * day_ns),
                (''2024-01-02 16:00:00'', 19724 * day_ns + 57600000000000),
                (''2024-01-03 16:00:00'', 19725 * day_ns + 57600000000000)] s))"

fun sample_to_datetime :: "cell list \<Rightarrow> py_error + stamp list" where
  "sample_to_datetime [] = Inr []"
| "sample_to_datetime (c # cs) =
     (case sample_instant c of
        None \<Rightarrow> Inl ValueError
      | Some d \<Rightarrow> (case sample_to_datetime cs of Inl e \<Rightarrow> Inl e | Inr ds \<Rightarrow> Inr (d # ds)))"

text \<open>
  The labels of the sample files are ASCII texts, on which \<^verbatim>\<open>str.strip\<close> removes the
  ASCII whitespace at both ends and \<^verbatim>\<open>str.lower\<close> maps A-Z to a-z; the sample routines
  do that and are used on such labels only (on other text they do not follow Python).
  The one metric value the examples print is 7/3, which Python prints as
  \<^verbatim>\<open>2.3333\<close>; the sample gives any other value the empty text, and no example
  prints one.
\<close>

definition ascii_space :: "char \<Rightarrow> bool" where
  "ascii_space c = (let n = (of_char c :: int) in n = 32 \<or> (9 \<le> n \<and> n \<le> 13) \<or> (28 \<le> n \<and> n \<le> 31))"

definition ascii_strip :: "string \<Rightarrow> string" where
  "ascii_strip s = rev (dropWhile ascii_space (rev (dropWhile ascii_space s)))"

definition ascii_lower_char :: "char \<Rightarrow> char" where
  "ascii_lower_char c = (let n = (of_char c :: int) in if 65 \<le> n \<and> n \<le> 90 then char_of (n + 32) else c)"

definition ascii_lower :: "string \<Rightarrow> string" where
  "ascii_lower s = map ascii_lower_char s"

definition sample_format_4f :: "rat \<Rightarrow> string" where
  "sample_format_4f q = (if q = 7 / 3 then ''2.3333'' else [])"

definition sample_library :: library where
  "sample_library =
     \<lparr>str_strip = ascii_strip, str_lower = ascii_lower,
      to_datetime = sample_to_datetime, format_4f = sample_format_4f\<rparr>"

definition aapl_prices :: frame where
  "aapl_prices =
     \<lparr>columns = ['' Date'', ''Close ''],
      rows = [[Text ''2024-01-03'', Num 11],
              [Text ''2024-01-02'', Num 10],
              [Text ''2024-01-04'', Num 12]]\<rparr>"

definition goog_prices :: frame where
  "goog_prices =
     \<lparr>columns = [''DATE'', ''CLOSE'', ''Volume''],
      rows = [[Text ''2024-01-04'', Num 142, Num 5],
              [Text ''2024-01-02'', Num 140, Num 7],
              [Blank, Num 141, Num 3]]\<rparr>"

definition amzn_prices :: frame where
  \<comment> \<open>the same day twice\<close>
  "amzn_prices =
     \<lparr>columns = [''date'', ''close''],
      rows = [[Text ''2024-01-02'', Num 150],
              [Text ''2024-01-02'', Num 151]]\<rparr>"

definition amt_prices :: frame where
  \<comment> \<open>dates with a time of day\<close>
  "amt_prices =
     \<lparr>columns = [''date'', ''close''],
      rows = [[Text ''2024-01-02 16:00:00'', Num 200],
              [Text ''2024-01-03 16:00:00'', Num 201]]\<rparr>"

definition ba_prices :: frame where
  \<comment> \<open>no \<^verbatim>\<open>close\<close> column\<close>
  "ba_prices =
     \<lparr>columns = [''Date'', ''Open''],
      rows = [[Text ''2024-01-02'', Num 250]]\<rparr>"

definition aapl_forecast :: frame where
  "aapl_forecast =
     \<lparr>columns = [''Date'', ''Real_Close'', ''Predicted_Close''],
      rows = [[Text ''2024-01-02'', Num 10, Num 12],
              [Text ''2024-01-03'', Num 20, Num 18],
              [Text ''2024-01-04'', Num 30, Num 33]]\<rparr>"

definition goog_forecast :: frame where
  \<comment> \<open>no \<^verbatim>\<open>predicted_close\<close> column\<close>
  "goog_forecast =
     \<lparr>columns = [''date'', ''real_close''],
      rows = [[Text ''2024-01-02'', Num 140]]\<rparr>"

definition amzn_forecast :: frame where
  \<comment> \<open>no \<^verbatim>\<open>date\<close> column\<close>
  "amzn_forecast =
     \<lparr>columns = [''real_close'', ''predicted_close''],
      rows = [[Num 150, Num 149]]\<rparr>"

definition sample_fs :: filesystem where
  "sample_fs =
     map_of
       [(''df_AAPL.csv'', Table aapl_prices),
        (''df_GOOG.csv'', Table goog_prices),
        (''df_AMZN.csv'', Table amzn_prices),
        (''df_AMT.csv'', Table amt_prices),
        (''df_BA.csv'', Table ba_prices),
        (''forecast_AAPL.csv'', Table aapl_forecast),
        (''forecast_GOOG.csv'', Table goog_forecast),
        (''forecast_AMZN.csv'', Table amzn_forecast)]"

definition aapl_series :: dated where
  \<comment> \<open>the table of \<^verbatim>\<open>df_AAPL.csv\<close> once loaded\<close>
  "aapl_series =
     \<lparr>dcolumns = [''date'', ''close''],
      drows = [(Some (midnight 19724), [Text ''2024-01-02'', Num 10]),
               (Some (midnight 19725), [Text ''2024-01-03'', Num 11]),
               (Some (midnight 19726), [Text ''2024-01-04'', Num 12])]\<rparr>"

definition aapl_forecast_series :: dated where
  \<comment> \<open>the table of \<^verbatim>\<open>forecast_AAPL.csv\<close> once its dates are converted\<close>
  "aapl_forecast_series =
     \<lparr>dcolumns = [''date'', ''real_close'', ''predicted_close''],
      drows = [(Some (midnight 19724), [Text ''2024-01-02'', Num 10, Num 12]),
               (Some (midnight 19725), [Text ''2024-01-03'', Num 20, Num 18]),
               (Some (midnight 19726), [Text ''2024-01-04'', Num 30, Num 33])]\<rparr>"

subsection \<open>Reading a result\<close>

definition failure :: "py_error + 'a \<Rightarrow> py_error option" where
  \<comment> \<open>the exception of a result, if it is one\<close>
  "failure r = (case r of Inl e \<Rightarrow> Some e | Inr _ \<Rightarrow> None)"

definition amt_series :: dated where
  \<comment> \<open>the table of \<^verbatim>\<open>df_AMT.csv\<close> once loaded: 16:00 on two days\<close>
  "amt_series =
     \<lparr>dcolumns = [''date'', ''close''],
      drows = [(Some (midnight 19724 + 57600000000000), [Text ''2024-01-02 16:00:00'', Num 200]),
               (Some (midnight 19725 + 57600000000000), [Text ''2024-01-03 16:00:00'', Num 201])]\<rparr>"


subsection \<open>What a chart shows\<close>

text \<open>
  The points a figure draws, over all its traces, and their extent on each axis, from
  which the chart library sets the range of the axis when none is given.
\<close>

definition plotted :: "figure \<Rightarrow> (stamp \<times> cell) list" where
  "plotted fig = concat (map (\<lambda>t. zip (txs t) (tys t)) (traces fig))"

definition axis_bounds :: "figure \<Rightarrow> (stamp \<times> stamp) \<times> (rat \<times> rat) option" where
  "axis_bounds fig =
     (let points = plotted fig;
          values = List.map_filter (\<lambda>p. case snd p of Num q \<Rightarrow> Some q | _ \<Rightarrow> None) points
      in ((series_min (map fst points), series_max (map fst points)),
          (case values of [] \<Rightarrow> None | q # qs \<Rightarrow> Some (fold min qs q, fold max qs q))))"

text \<open>
  The comparison view as the spec words it: one company's file is loaded (labels
  normalized, dates converted, rows sorted), filtered over the range and drawn as a trace
  under a label; a file without the \<^verbatim>\<open>date\<close> or the \<^verbatim>\<open>close\<close> column gives no trace.
  The loop of lines 88 to 99 is compared with it below.
\<close>

definition entity_trace :: "library \<Rightarrow> filesystem \<Rightarrow> int \<times> int \<Rightarrow> string \<Rightarrow> string
    \<Rightarrow> py_error + trace option" where
  "entity_trace lib fs date_range label company =
     (case map_of files company of
        None \<Rightarrow> Inl KeyError
      | Some fname \<Rightarrow>
          (case read_csv fs fname of
             Inl e \<Rightarrow> Inl e
           | Inr raw \<Rightarrow>
               if ''date'' \<in> set (columns (normalize lib raw)) \<and> ''close'' \<in> set (columns (normalize lib raw)) then
                 (case load lib (normalize lib raw) of
                    Inl e \<Rightarrow> Inl e
                  | Inr df \<Rightarrow>
                      (case close_of (range_filter date_range df) ''close'' of
                         Inl e \<Rightarrow> Inl e
                       | Inr y \<Rightarrow>
                           Inr (Some \<lparr>tname = label,
                                      txs = map fst (drows (range_filter date_range df)),
                                      tys = y\<rparr>)))
               else Inr None))"

text \<open>Sample charts: the comparison chart of Apple over two days, and the trace of Google.\<close>

definition aapl_compare_figure :: figure where
  "aapl_compare_figure =
     \<lparr>kind = LineChart, title = None, x_title = ''date'', y_title = ''Apple (AAPL)'',
      legend_title = None,
      traces = [\<lparr>tname = [],
                 txs = [Some (midnight 19725), Some (midnight 19726)],
                 tys = [Num 11, Num 12]\<rparr>]\<rparr>"

definition goog_trace :: trace where
  "goog_trace = \<lparr>tname = ''Google (GOOG)'', txs = [Some (midnight 19726)], tys = [Num 142]\<rparr>"

section \<open>Properties\<close>

subsection \<open>Days and instants\<close>

lemma midnight_le_iff: "midnight a \<le> midnight b \<longleftrightarrow> a \<le> b"
  by (simp add: midnight_def day_ns_def)

lemma date_of_midnight: "date_of (midnight d) = d"
  by (simp add: date_of_def midnight_def day_ns_def)

lemma aapl_load: "load sample_library (normalize sample_library aapl_prices) = Inr aapl_series"
  by code_simp

subsection \<open>The range filter\<close>

lemma midnight_le_date: "midnight s \<le> t \<longleftrightarrow> s \<le> date_of t"
proof -
  define q r where "q = t div 86400000000000" and "r = t mod 86400000000000"
  have "t = q * 86400000000000 + r" "0 \<le> r" "r < 86400000000000"
    by (simp_all add: q_def r_def)
  then show ?thesis
    unfolding midnight_def date_of_def day_ns_def q_def [symmetric] by linarith
qed

lemma le_midnight_date: "t \<le> midnight e \<longleftrightarrow> date_of t < e \<or> t = midnight e"
proof -
  define q r where "q = t div 86400000000000" and "r = t mod 86400000000000"
  have "t = q * 86400000000000 + r" "0 \<le> r" "r < 86400000000000"
    by (simp_all add: q_def r_def)
  then show ?thesis
    unfolding midnight_def date_of_def day_ns_def q_def [symmetric] by linarith
qed

lemma midnight_eq_iff: "midnight a = midnight b \<longleftrightarrow> a = b"
  by (simp add: midnight_def day_ns_def)

lemma kept_days:
  "(ge_stamp d (midnight start) \<and> le_stamp d (midnight stop))
     = (\<exists>t. d = Some t \<and> start \<le> date_of t \<and> (date_of t < stop \<or> t = midnight stop))"
  by (cases d) (auto simp: ge_stamp_def le_stamp_def midnight_le_date le_midnight_date)

text \<open>
  Claim C1, amended. For every loaded series and every range of days (start, stop), the
  range filter returns exactly the rows whose date falls on a day \<open>d\<close> with
  \<open>start \<le> d < stop\<close> or is the stop day at 00:00, each as often as the series holds it
  and in the order of the series, with the columns of the series; for a row dated at
  00:00 of a day \<open>d\<close> this is \<open>start \<le> d \<le> stop\<close>, both bounds included. The statement
  of lines 63 and 64 leaves the table \<^verbatim>\<open>df\<close> as it was and binds the new table.
\<close>

theorem range_filter_days:
  "subseq (drows (range_filter (start, stop) df)) (drows df)
   \<and> mset (drows (range_filter (start, stop) df))
       = filter_mset (\<lambda>x. \<exists>t. fst x = Some t \<and> start \<le> date_of t
                                \<and> (date_of t < stop \<or> t = midnight stop))
           (mset (drows df))
   \<and> dcolumns (range_filter (start, stop) df) = dcolumns df
   \<and> (\<forall>d r. (Some (midnight d), r) \<in> set (drows df) \<longrightarrow>
         ((Some (midnight d), r) \<in> set (drows (range_filter (start, stop) df))
            \<longleftrightarrow> start \<le> d \<and> d \<le> stop))
   \<and> fst (filter_statement (start, stop) df) = df
   \<and> snd (filter_statement (start, stop) df) = range_filter (start, stop) df"
proof -
  have rows: "drows (range_filter (start, stop) df)
     = filter (\<lambda>x. \<exists>t. fst x = Some t \<and> start \<le> date_of t
                         \<and> (date_of t < stop \<or> t = midnight stop)) (drows df)"
    by (simp add: range_filter_def kept_days)
  have sub: "subseq (drows (range_filter (start, stop) df)) (drows df)"
    unfolding rows by (rule subseq_filter_left)
  have ms: "mset (drows (range_filter (start, stop) df))
       = filter_mset (\<lambda>x. \<exists>t. fst x = Some t \<and> start \<le> date_of t
                                \<and> (date_of t < stop \<or> t = midnight stop))
           (mset (drows df))"
    unfolding rows by (rule mset_filter)
  have cols: "dcolumns (range_filter (start, stop) df) = dcolumns df"
    by (simp add: range_filter_def)
  have days: "\<forall>d r. (Some (midnight d), r) \<in> set (drows df) \<longrightarrow>
         ((Some (midnight d), r) \<in> set (drows (range_filter (start, stop) df))
            \<longleftrightarrow> start \<le> d \<and> d \<le> stop)"
    unfolding rows by (auto simp: date_of_midnight midnight_eq_iff)
  have st: "fst (filter_statement (start, stop) df) = df"
    "snd (filter_statement (start, stop) df) = range_filter (start, stop) df"
    by (simp_all add: filter_statement_def)
  from sub ms cols days st show ?thesis by blast
qed

text \<open>
  Claim C1 as stated: the filter returns exactly the rows whose date lies between the
  start day and the stop day, both included. Line 64 compares the instants of the
  \<^verbatim>\<open>date\<close> column with the stop day at 00:00, so a row of the stop day with a later time
  of day has its date within the range and is not returned.
\<close>

theorem range_filter_end_day_counterexample:
  "(Some (midnight 19725 + 57600000000000), [Text ''2024-01-03 16:00:00'', Num 201])
      \<in> set (drows amt_series)
   \<and> date_of (midnight 19725 + 57600000000000) = 19725
   \<and> (19724 :: int) \<le> 19725 \<and> (19725 :: int) \<le> 19725
   \<and> (Some (midnight 19725 + 57600000000000), [Text ''2024-01-03 16:00:00'', Num 201])
      \<notin> set (drows (range_filter (19724, 19725) amt_series))"
  by code_simp

theorem range_filter_days_witness:
  "drows (range_filter (19725, 19726) aapl_series)
     = [(Some (midnight 19725), [Text ''2024-01-03'', Num 11]),
        (Some (midnight 19726), [Text ''2024-01-04'', Num 12])]
   \<and> (Some (midnight 19724), [Text ''2024-01-02'', Num 10]) \<in> set (drows aapl_series)
   \<and> (Some (midnight 19724), [Text ''2024-01-02'', Num 10])
        \<notin> set (drows (range_filter (19725, 19726) aapl_series))
   \<and> (Some (midnight 19726), [Text ''2024-01-04'', Num 12])
        \<in> set (drows (range_filter (19725, 19726) aapl_series))
   \<and> fst (filter_statement (19725, 19726) aapl_series) = aapl_series"
proof -
  have m: "(Some (midnight 19724), [Text ''2024-01-02'', Num 10]) \<in> set (drows aapl_series)"
          "(Some (midnight 19726), [Text ''2024-01-04'', Num 12]) \<in> set (drows aapl_series)"
    by (simp_all add: aapl_series_def)
  have e: "drows (range_filter (19725, 19726) aapl_series)
     = [(Some (midnight 19725), [Text ''2024-01-03'', Num 11]),
        (Some (midnight 19726), [Text ''2024-01-04'', Num 12])]"
    by code_simp
  note t = range_filter_days [of 19725 19726 aapl_series]
  have "(Some (midnight 19724), [Text ''2024-01-02'', Num 10])
           \<in> set (drows (range_filter (19725, 19726) aapl_series))
         \<longleftrightarrow> (19725::int) \<le> 19724 \<and> (19724::int) \<le> 19726"
    using t m(1) by blast
  moreover have "(Some (midnight 19726), [Text ''2024-01-04'', Num 12])
           \<in> set (drows (range_filter (19725, 19726) aapl_series))
         \<longleftrightarrow> (19725::int) \<le> 19726 \<and> (19726::int) \<le> 19726"
    using t m(2) by blast
  moreover from t have "fst (filter_statement (19725, 19726) aapl_series) = aapl_series"
    by simp
  ultimately show ?thesis using m e by simp
qed

subsection \<open>A table without a date or a close column\<close>

text \<open>
  Claim C6. When the table of the selected company lacks the \<^verbatim>\<open>date\<close> column or the
  \<^verbatim>\<open>close\<close> column after the labels are trimmed and lower-cased, the run writes the
  error box of line 167 and nothing else: no tab holds a chart, and no exception ends
  the run.
\<close>

theorem missing_column_error_state:
  assumes "map_of files selected_company = Some fname"
    and "fs fname = Some (Table raw)"
    and "''date'' \<notin> set (columns (normalize lib raw)) \<or> ''close'' \<notin> set (columns (normalize lib raw))"
  shows "dashboard lib fs selected_company pick chosen
           = \<lparr>main_area = [Error_box '' Date not found.''], line_tab = [], bar_tab = [],
              compare_tab = [], forecast_tab = [], raised = None\<rparr>"
  using assms by (auto simp: dashboard_def filter_statement_def read_csv_def blank_page_def Let_def)

theorem missing_column_error_state_witness:
  "map_of files ''Boeing (BA)'' = Some ''df_BA.csv''
   \<and> sample_fs ''df_BA.csv'' = Some (Table ba_prices)
   \<and> ''close'' \<notin> set (columns (normalize sample_library ba_prices))
   \<and> dashboard sample_library sample_fs ''Boeing (BA)'' None []
       = \<lparr>main_area = [Error_box '' Date not found.''], line_tab = [], bar_tab = [],
          compare_tab = [], forecast_tab = [], raised = None\<rparr>"
proof -
  have a: "map_of files ''Boeing (BA)'' = Some ''df_BA.csv''" by code_simp
  have b: "sample_fs ''df_BA.csv'' = Some (Table ba_prices)" by code_simp
  have c: "''close'' \<notin> set (columns (normalize sample_library ba_prices))" by code_simp
  from c have d: "''date'' \<notin> set (columns (normalize sample_library ba_prices))
                  \<or> ''close'' \<notin> set (columns (normalize sample_library ba_prices))"
    by blast
  from missing_column_error_state
         [where selected_company = "''Boeing (BA)''" and fname = "''df_BA.csv''"
            and fs = sample_fs and raw = ba_prices and lib = sample_library
            and pick = None and chosen = "[]"] a b c d
  show ?thesis by blast
qed

subsection \<open>Columns\<close>

lemma getitem_length: "getitem cols rs c = Inr col \<Longrightarrow> length col = length rs"
  by (auto simp: getitem_def split: list.splits)

lemma getitem_error: "getitem cols rs c = Inl e \<Longrightarrow> e = KeyError \<or> e = ValueError"
  by (auto simp: getitem_def split: list.splits)

lemma as_numbers_length: "as_numbers cs = Inr qs \<Longrightarrow> length qs = length cs"
  by (induction cs arbitrary: qs rule: as_numbers.induct) (auto split: sum.splits)

lemma as_numbers_error: "as_numbers cs = Inl e \<Longrightarrow> e = ValueError"
  by (induction cs rule: as_numbers.induct) (auto split: sum.splits)

lemma close_of_length: "close_of df c = Inr col \<Longrightarrow> length col = length (drows df)"
  by (auto simp: close_of_def dest: getitem_length)

subsection \<open>The length guard of the metric\<close>

text \<open>
  Claim C9. The metric fails with the length mismatch condition whenever its two
  sequences differ in length. In the script the two sequences are the \<^verbatim>\<open>real_close\<close> and
  the \<^verbatim>\<open>predicted_close\<close> column of the same table (lines 130 and 131), so they have the
  same length, and the call of the forecast view never fails with that condition.
\<close>

theorem length_mismatch_unreachable:
  "(length y_true \<noteq> length y_pred \<longrightarrow> mean_absolute_error y_true y_pred = Inl LengthMismatchError)
   \<and> (\<forall>real_close predicted_close.
         close_of forecast_df ''real_close'' = Inr real_close
         \<longrightarrow> close_of forecast_df ''predicted_close'' = Inr predicted_close
         \<longrightarrow> length real_close = length predicted_close)
   \<and> mae_of forecast_df \<noteq> Inl LengthMismatchError"
proof -
  have a: "length y_true \<noteq> length y_pred \<longrightarrow> mean_absolute_error y_true y_pred = Inl LengthMismatchError"
    by (simp add: mean_absolute_error_def)
  have b: "\<forall>real_close predicted_close.
         close_of forecast_df ''real_close'' = Inr real_close
         \<longrightarrow> close_of forecast_df ''predicted_close'' = Inr predicted_close
         \<longrightarrow> length real_close = length predicted_close"
    by (auto dest!: close_of_length)
  have c: "mae_of forecast_df \<noteq> Inl LengthMismatchError"
  proof
    assume h: "mae_of forecast_df = Inl LengthMismatchError"
    then obtain rc pc yt yp where
      rc: "close_of forecast_df ''real_close'' = Inr rc"
      and pc: "close_of forecast_df ''predicted_close'' = Inr pc"
      and yt: "as_numbers rc = Inr yt" and yp: "as_numbers pc = Inr yp"
      and m: "mean_absolute_error yt yp = Inl LengthMismatchError"
      by (auto simp: mae_of_def close_of_def split: sum.splits
               dest: getitem_error as_numbers_error)
    from rc pc yt yp have "length yt = length yp"
      by (simp add: as_numbers_length close_of_length)
    with m show False
      by (simp add: mean_absolute_error_def split: if_splits)
  qed
  from a b c show ?thesis by blast
qed

theorem length_mismatch_unreachable_witness:
  "length [1, 2 :: rat] \<noteq> length [1 :: rat]
   \<and> mean_absolute_error [1, 2] [1] = Inl LengthMismatchError
   \<and> close_of aapl_forecast_series ''real_close'' = Inr [Num 10, Num 20, Num 30]
   \<and> close_of aapl_forecast_series ''predicted_close'' = Inr [Num 12, Num 18, Num 33]
   \<and> length [Num 10, Num 20, Num 30] = length [Num 12, Num 18, Num 33]
   \<and> mae_of aapl_forecast_series \<noteq> Inl LengthMismatchError"
proof -
  have n: "length [1, 2 :: rat] \<noteq> length [1 :: rat]" by simp
  have r: "close_of aapl_forecast_series ''real_close'' = Inr [Num 10, Num 20, Num 30]"
    by code_simp
  have p: "close_of aapl_forecast_series ''predicted_close'' = Inr [Num 12, Num 18, Num 33]"
    by code_simp
  from length_mismatch_unreachable [of "[1, 2]" "[1]" aapl_forecast_series] n r p
  show ?thesis by simp
qed

subsection \<open>A forecast file without its date column\<close>

text \<open>
  Claim C5, at a forecast file that lacks the \<^verbatim>\<open>date\<close> column. Line 110 reads
  \<^verbatim>\<open>forecast_df["date"]\<close> before line 113 checks the columns, so the run ends with
  \<^verbatim>\<open>KeyError\<close> after the subheader of the forecast tab: no error box, no list of the
  columns found. With the \<^verbatim>\<open>date\<close> column present and \<^verbatim>\<open>predicted_close\<close> missing, the
  check of line 113 is reached and the tab holds the error box and the columns found,
  without chart or metric.
\<close>

theorem forecast_without_date_raises:
  "sample_fs ''forecast_AMZN.csv'' = Some (Table amzn_forecast)
   \<and> columns (normalize sample_library amzn_forecast) = [''real_close'', ''predicted_close'']
   \<and> forecast_tab (dashboard sample_library sample_fs ''Amazon (AMZN)'' None [])
       = [Subheader ''Forecasted vs Real Prices (RNN Model)'']
   \<and> raised (dashboard sample_library sample_fs ''Amazon (AMZN)'' None []) = Some KeyError
   \<and> forecast_tab (dashboard sample_library sample_fs ''Google (GOOG)'' None [])
       = [Subheader ''Forecasted vs Real Prices (RNN Model)'',
          Error_box '' Forecast file is missing required columns: 'real_close' or 'predicted_close'.'',
          Write ''Available columns:'' [''date'', ''real_close'']]
   \<and> raised (dashboard sample_library sample_fs ''Google (GOOG)'' None []) = None"
  by code_simp

subsection \<open>The forecast tab and the range\<close>

lemma failure_simps [simp]: "failure (Inl e) = Some e" "failure (Inr x) = None"
  by (simp_all add: failure_def)

lemma failure_None_iff: "failure r = None \<longleftrightarrow> (\<exists>x. r = Inr x)"
  by (cases r) simp_all

lemma close_of_range_filter_failure:
  "failure (close_of (range_filter dr df) c) = failure (close_of df c)"
  by (simp add: close_of_def range_filter_def getitem_def split: list.splits)

lemma px_failure: "failure (px k df y labels ttl) = failure (close_of df y)"
  by (simp add: px_def split: sum.splits)

lemma tab1_failure: "snd (tab1 df) = failure (close_of df ''close'')"
  by (simp add: tab1_def px_def split: sum.splits)

lemma tab2_failure: "snd (tab2 df) = failure (close_of df ''close'')"
  by (simp add: tab2_def px_def split: sum.splits)

lemma overlay_failure:
  "failure (overlay lib fs dr1 others fig1) = failure (overlay lib fs dr2 others fig2)"
proof (induction others arbitrary: fig1 fig2)
  case Nil
  show ?case by simp
next
  case (Cons other rest)
  show ?case
  proof (cases "map_of files other")
    case None
    then show ?thesis by simp
  next
    case (Some fname)
    show ?thesis
    proof (cases "read_csv fs fname")
      case (Inl e)
      with Some show ?thesis by simp
    next
      case (Inr raw)
      show ?thesis
      proof (cases "''date'' \<in> set (columns (normalize lib raw)) \<and> ''close'' \<in> set (columns (normalize lib raw))")
        case False
        with Some Inr Cons.IH [of fig1 fig2] show ?thesis by (auto simp: Let_def)
      next
        case True
        show ?thesis
        proof (cases "assign_date lib (normalize lib raw)")
          case (Inl e)
          with Some Inr True show ?thesis by (simp add: Let_def)
        next
          case conv: (Inr converted)
          have f: "failure (close_of (range_filter dr1 (sort_values converted)) ''close'')
                 = failure (close_of (range_filter dr2 (sort_values converted)) ''close'')"
            by (simp add: close_of_range_filter_failure)
          show ?thesis
          proof (cases "close_of (range_filter dr1 (sort_values converted)) ''close''")
            case (Inl e)
            with f have "close_of (range_filter dr2 (sort_values converted)) ''close'' = Inl e"
              by (cases "close_of (range_filter dr2 (sort_values converted)) ''close''") simp_all
            with Inl Some Inr True conv show ?thesis by (simp add: Let_def)
          next
            case y1: (Inr y1)
            with f obtain y2 where y2: "close_of (range_filter dr2 (sort_values converted)) ''close'' = Inr y2"
              by (cases "close_of (range_filter dr2 (sort_values converted)) ''close''") simp_all
            from Some Inr True conv y1 y2 show ?thesis
              by (simp add: Let_def Cons.IH)
          qed
        qed
      qed
    qed
  qed
qed

lemma failure_eq_cases:
  "failure a = failure b \<Longrightarrow> (\<exists>e. a = Inl e \<and> b = Inl e) \<or> (\<exists>x y. a = Inr x \<and> b = Inr y)"
  by (cases a; cases b) simp_all

lemma tab3_failure:
  "snd (tab3 lib fs sel dr1 (range_filter dr1 df) chosen)
     = snd (tab3 lib fs sel dr2 (range_filter dr2 df) chosen)"
proof -
  let ?p1 = "px LineChart (range_filter dr1 df) ''close'' [(''close'', sel)] None"
  let ?p2 = "px LineChart (range_filter dr2 df) ''close'' [(''close'', sel)] None"
  have "failure ?p1 = failure ?p2"
    by (simp add: px_failure close_of_range_filter_failure)
  then consider (err) e where "?p1 = Inl e" "?p2 = Inl e"
    | (ok) f1 f2 where "?p1 = Inr f1" "?p2 = Inr f2"
    using failure_eq_cases by blast
  then show ?thesis
  proof cases
    case err
    then show ?thesis by (simp add: tab3_def Let_def)
  next
    case ok
    let ?others = "multiselect (compare_options sel) chosen"
    from overlay_failure [of lib fs dr1 ?others f1 dr2 f2]
    consider (e2) e where "overlay lib fs dr1 ?others f1 = Inl e" "overlay lib fs dr2 ?others f2 = Inl e"
      | (k2) g1 g2 where "overlay lib fs dr1 ?others f1 = Inr g1" "overlay lib fs dr2 ?others f2 = Inr g2"
      using failure_eq_cases by blast
    then show ?thesis
      using ok by cases (simp_all add: tab3_def Let_def)
  qed
qed

lemma forecast_tab_tabs:
  "forecast_tab (tabs lib fs sel smb dr dff chosen)
     = (if snd (tab1 dff) = None \<and> snd (tab2 dff) = None \<and> snd (tab3 lib fs sel dr dff chosen) = None
        then fst (tab4 lib fs smb) else [])"
  by (auto simp: tabs_def blank_page_def split: prod.splits option.splits)

lemma slider_cases:
  "(\<exists>e. slider lo hi pick1 = Inl e \<and> slider lo hi pick2 = Inl e)
   \<or> (\<exists>r1 r2. slider lo hi pick1 = Inr r1 \<and> slider lo hi pick2 = Inr r2)"
  by (auto simp: slider_def split: option.splits)

text \<open>
  Claim C10. The forecast tab does not depend on the range picked on the slider: for one
  folder, one company and one choice of companies to compare, two runs with two ranges
  hold the same forecast tab (chart, table and metric, or the same warning or error).
  The range enters the line, bar and comparison tabs only; whether the run reaches the
  forecast tab does not depend on it either.
\<close>

theorem forecast_independent_of_range:
  "forecast_tab (dashboard lib fs selected_company pick1 chosen)
     = forecast_tab (dashboard lib fs selected_company pick2 chosen)"
proof -
  have t: "forecast_tab (tabs lib fs selected_company smb dr1 (range_filter dr1 df) chosen)
         = forecast_tab (tabs lib fs selected_company smb dr2 (range_filter dr2 df) chosen)"
    for smb dr1 dr2 df
    by (simp add: forecast_tab_tabs tab1_failure tab2_failure close_of_range_filter_failure
          tab3_failure [of lib fs selected_company dr1 df chosen dr2])
  show ?thesis
  proof (cases "map_of files selected_company")
    case None
    then show ?thesis by (simp add: dashboard_def)
  next
    case (Some fname)
    show ?thesis
    proof (cases "read_csv fs fname")
      case (Inl e)
      with Some show ?thesis by (simp add: dashboard_def)
    next
      case (Inr raw)
      show ?thesis
      proof (cases "''date'' \<in> set (columns (normalize lib raw)) \<and> ''close'' \<in> set (columns (normalize lib raw))")
        case False
        with Some Inr show ?thesis by (auto simp: dashboard_def filter_statement_def Let_def)
      next
        case True
        show ?thesis
        proof (cases "load lib (normalize lib raw)")
          case (Inl e)
          with Some Inr True show ?thesis by (simp add: dashboard_def filter_statement_def Let_def)
        next
          case ld: (Inr df)
          show ?thesis
          proof (cases "symbol_of fname")
            case (Inl e)
            with Some Inr True ld show ?thesis by (simp add: dashboard_def filter_statement_def Let_def)
          next
            case smb: (Inr smb)
            from slider_cases [of "min_date df" "max_date df" pick1 pick2]
            show ?thesis
            proof (elim disjE exE conjE)
              fix e assume "slider (min_date df) (max_date df) pick1 = Inl e"
                "slider (min_date df) (max_date df) pick2 = Inl e"
              with Some Inr True ld smb show ?thesis by (simp add: dashboard_def filter_statement_def Let_def)
            next
              fix r1 r2 assume "slider (min_date df) (max_date df) pick1 = Inr r1"
                "slider (min_date df) (max_date df) pick2 = Inr r2"
              with Some Inr True ld smb t [of smb r1 df r2] show ?thesis
                by (simp add: dashboard_def filter_statement_def Let_def)
            qed
          qed
        qed
      qed
    qed
  qed
qed

theorem forecast_independent_of_range_witness:
  "forecast_tab (dashboard sample_library sample_fs ''Apple (AAPL)'' (Some (19725, 19725)) [])
     = forecast_tab (dashboard sample_library sample_fs ''Apple (AAPL)'' None [])
   \<and> line_tab (dashboard sample_library sample_fs ''Apple (AAPL)'' (Some (19725, 19725)) [])
     \<noteq> line_tab (dashboard sample_library sample_fs ''Apple (AAPL)'' None [])
   \<and> Info '' **Mean Absolute Error (MAE):** 2.3333''
       \<in> set (forecast_tab (dashboard sample_library sample_fs ''Apple (AAPL)'' (Some (19725, 19725)) []))"
proof -
  have a: "line_tab (dashboard sample_library sample_fs ''Apple (AAPL)'' (Some (19725, 19725)) [])
     \<noteq> line_tab (dashboard sample_library sample_fs ''Apple (AAPL)'' None [])"
    by code_simp
  have b: "Info '' **Mean Absolute Error (MAE):** 2.3333''
       \<in> set (forecast_tab (dashboard sample_library sample_fs ''Apple (AAPL)'' None []))"
    by code_simp
  from forecast_independent_of_range
         [of sample_library sample_fs "''Apple (AAPL)''" "Some (19725, 19725)" "[]" None] a b
  show ?thesis by simp
qed

subsection \<open>The full span\<close>

lemma fold_min_le: "fold min ts (t::int) \<le> t \<and> (\<forall>u\<in>set ts. fold min ts t \<le> u)"
proof (induction ts arbitrary: t)
  case Nil
  show ?case by simp
next
  case (Cons a ts)
  from Cons.IH [of "min a t"] show ?case by auto
qed

lemma fold_min_in: "fold min ts (t::int) \<in> set (t # ts)"
proof (induction ts arbitrary: t)
  case Nil
  show ?case by simp
next
  case (Cons a ts)
  from Cons.IH [of "min a t"] show ?case by (auto simp: min_def split: if_splits)
qed

lemma fold_max_ge: "t \<le> fold max ts (t::int) \<and> (\<forall>u\<in>set ts. u \<le> fold max ts t)"
proof (induction ts arbitrary: t)
  case Nil
  show ?case by simp
next
  case (Cons a ts)
  from Cons.IH [of "max a t"] show ?case by auto
qed

lemma fold_max_in: "fold max ts (t::int) \<in> set (t # ts)"
proof (induction ts arbitrary: t)
  case Nil
  show ?case by simp
next
  case (Cons a ts)
  from Cons.IH [of "max a t"] show ?case by (auto simp: max_def split: if_splits)
qed

lemma set_present: "set (List.map_filter (\<lambda>d. d) ds) = {t. Some t \<in> set ds}"
  by (force simp: List.map_filter_def image_iff)

lemma series_min_Some:
  assumes "series_min ds = Some m"
  shows "Some m \<in> set ds \<and> (\<forall>t. Some t \<in> set ds \<longrightarrow> m \<le> t)"
proof -
  from assms obtain t ts where l: "List.map_filter (\<lambda>d. d) ds = t # ts" and m: "m = fold min ts t"
    by (auto simp: series_min_def split: list.splits)
  from set_present [of ds] l have s: "{u. Some u \<in> set ds} = set (t # ts)" by simp
  from fold_min_in [where ts = ts and t = t] m s have "Some m \<in> set ds" by blast
  moreover from fold_min_le [where ts = ts and t = t] m s have "\<forall>u. Some u \<in> set ds \<longrightarrow> m \<le> u"
    by (metis mem_Collect_eq set_ConsD)
  ultimately show ?thesis by blast
qed

lemma series_max_Some:
  assumes "series_max ds = Some m"
  shows "Some m \<in> set ds \<and> (\<forall>t. Some t \<in> set ds \<longrightarrow> t \<le> m)"
proof -
  from assms obtain t ts where l: "List.map_filter (\<lambda>d. d) ds = t # ts" and m: "m = fold max ts t"
    by (auto simp: series_max_def split: list.splits)
  from set_present [of ds] l have s: "{u. Some u \<in> set ds} = set (t # ts)" by simp
  from fold_max_in [where ts = ts and t = t] m s have "Some m \<in> set ds" by blast
  moreover from fold_max_ge [where ts = ts and t = t] m s have "\<forall>u. Some u \<in> set ds \<longrightarrow> u \<le> m"
    by (metis mem_Collect_eq set_ConsD)
  ultimately show ?thesis by blast
qed

text \<open>
  Claim C2 as stated: filtering a loaded series by its own full span (lines 59 to 64, with
  the slider at its default) returns the series unchanged. It fails for a series whose
  dates carry a time of day: \<^verbatim>\<open>.date()\<close> drops the time, the upper bound becomes the
  last day at 00:00, and the rows of the last day are filtered out.
\<close>

theorem full_span_filter_counterexample:
  "load sample_library (normalize sample_library amt_prices) = Inr amt_series
   \<and> slider (min_date amt_series) (max_date amt_series) None = Inr (19724, 19725)
   \<and> drows (range_filter (19724, 19725) amt_series)
        = [(Some (midnight 19724 + 57600000000000), [Text ''2024-01-02 16:00:00'', Num 200])]
   \<and> range_filter (19724, 19725) amt_series \<noteq> amt_series"
  by code_simp

text \<open>
  Claim C2, amended. For every loaded series in which every row has a date and every
  date is a calendar day (an instant at 00:00), filtering by the default range of the
  slider, from the first day to the last day of the series, returns the series unchanged
  in content and in order.
\<close>

theorem full_span_filter_identity:
  assumes whole: "\<forall>x \<in> set (drows df). \<exists>d. fst x = Some (midnight d)"
    and span: "slider (min_date df) (max_date df) None = Inr date_range"
  shows "range_filter date_range df = df"
proof -
  from span obtain a b where a: "min_date df = Some a" and b: "max_date df = Some b"
    and dr: "date_range = (a, b)"
    by (auto simp: slider_def split: option.splits)
  from a obtain m where m: "series_min (map fst (drows df)) = Some m" and am: "a = date_of m"
    by (auto simp: min_date_def)
  from b obtain n where n: "series_max (map fst (drows df)) = Some n" and bn: "b = date_of n"
    by (auto simp: max_date_def)
  from series_min_Some [OF m] whole obtain d0 where "m = midnight d0" by force
  with am have lo: "midnight a = m" by (simp add: date_of_midnight)
  from series_max_Some [OF n] whole obtain d1 where "n = midnight d1" by force
  with bn have hi: "midnight b = n" by (simp add: date_of_midnight)
  have keep: "ge_stamp (fst x) (midnight a) \<and> le_stamp (fst x) (midnight b)"
    if x: "x \<in> set (drows df)" for x
  proof -
    from whole x obtain d where d: "fst x = Some (midnight d)" by blast
    with x have "Some (midnight d) \<in> set (map fst (drows df))" by force
    with series_min_Some [OF m] series_max_Some [OF n]
    have "m \<le> midnight d" "midnight d \<le> n" by blast+
    with d lo hi show ?thesis by (simp add: ge_stamp_def le_stamp_def)
  qed
  then have "filter (\<lambda>x. ge_stamp (fst x) (midnight a) \<and> le_stamp (fst x) (midnight b)) (drows df)
             = drows df"
    by (simp add: filter_id_conv)
  with dr show ?thesis by (simp add: range_filter_def)
qed

theorem full_span_filter_identity_witness:
  "map fst (drows aapl_series) = [Some (midnight 19724), Some (midnight 19725), Some (midnight 19726)]
   \<and> slider (min_date aapl_series) (max_date aapl_series) None = Inr (19724, 19726)
   \<and> range_filter (19724, 19726) aapl_series = aapl_series"
proof -
  have m: "map fst (drows aapl_series)
             = [Some (midnight 19724), Some (midnight 19725), Some (midnight 19726)]"
    by (simp add: aapl_series_def)
  have w: "\<forall>x \<in> set (drows aapl_series). \<exists>d. fst x = Some (midnight d)"
    by (auto simp: aapl_series_def)
  have s: "slider (min_date aapl_series) (max_date aapl_series) None = Inr (19724, 19726)"
    by code_simp
  from full_span_filter_identity [OF w s] m s show ?thesis by blast
qed

subsection \<open>The loader\<close>


lemma sort_values_dates:
  "\<exists>ts k. map fst (drows (sort_values df)) = map Some ts @ replicate k None \<and> sorted ts"
proof -
  let ?some = "sort_key stamp_key (filter (\<lambda>x. fst x \<noteq> None) (drows df))"
  let ?none = "filter (\<lambda>x. fst x = None) (drows df)"
  have "\<forall>x \<in> set ?some. fst x = Some (stamp_key x)"
    by (auto simp: stamp_key_def)
  then have a: "map fst ?some = map Some (map stamp_key ?some)"
    by (simp add: map_eq_conv)
  have b: "map fst ?none = replicate (length ?none) None"
    by (simp add: map_replicate_const [symmetric] map_eq_conv)
  have c: "sorted (map stamp_key ?some)"
    by (rule sorted_sort_key)
  from a b c show ?thesis
    unfolding sort_values_def by (intro exI [of _ "map stamp_key ?some"] exI [of _ "length ?none"]) simp
qed

lemma sort_values_mset: "mset (drows (sort_values df)) = mset (drows df)"
  by (simp add: sort_values_def)



subsection \<open>The comparison tab\<close>

lemma px_traces:
  "px k df y labels ttl = Inr f \<Longrightarrow>
     close_of df y = Inr (tys (hd (traces f)))
     \<and> traces f = [\<lparr>tname = [], txs = map fst (drows df), tys = tys (hd (traces f))\<rparr>]"
  by (auto simp: px_def split: sum.splits)

lemma tab_chart:
  "Plotly_chart f \<in> set (fst (tab1 df)) \<Longrightarrow> px LineChart df ''close'' [] (Some ''Closing Price Over Time'') = Inr f"
  by (auto simp: tab1_def split: sum.splits)

lemma tab1_ok:
  "snd (tab1 df) = None \<Longrightarrow> \<exists>f. fst (tab1 df) = [Subheader ''Interactive Line Chart'', Plotly_chart f]
      \<and> px LineChart df ''close'' [] (Some ''Closing Price Over Time'') = Inr f"
  by (auto simp: tab1_def split: sum.splits)

lemma tab3_chart:
  assumes "Plotly_chart f \<in> set (fst (tab3 lib fs sel dr df chosen))"
  shows "\<exists>fig. px LineChart df ''close'' [(''close'', sel)] None = Inr fig
           \<and> overlay lib fs dr (multiselect (compare_options sel) chosen) fig = Inr f
           \<and> fst (tab3 lib fs sel dr df chosen)
               = [Subheader ''Compare with Other Companies'',
                  Multiselect ''Select companies to compare'' (compare_options sel),
                  Plotly_chart f]"
  using assms by (auto simp: tab3_def Let_def split: sum.splits)

lemma dashboard_compare_tab:
  assumes "Plotly_chart f \<in> set (compare_tab (dashboard lib fs sel pick chosen))"
  shows "\<exists>fname raw df dr.
           map_of files sel = Some fname \<and> read_csv fs fname = Inr raw
         \<and> ''date'' \<in> set (columns (normalize lib raw)) \<and> ''close'' \<in> set (columns (normalize lib raw))
         \<and> load lib (normalize lib raw) = Inr df
         \<and> slider (min_date df) (max_date df) pick = Inr dr
         \<and> snd (tab1 (range_filter dr df)) = None
         \<and> line_tab (dashboard lib fs sel pick chosen) = fst (tab1 (range_filter dr df))
         \<and> compare_tab (dashboard lib fs sel pick chosen)
             = fst (tab3 lib fs sel dr (range_filter dr df) chosen)"
proof (cases "map_of files sel")
  case None
  with assms show ?thesis by (simp add: dashboard_def blank_page_def)
next
  case (Some fname)
  show ?thesis
  proof (cases "read_csv fs fname")
    case (Inl e)
    with Some assms show ?thesis by (simp add: dashboard_def blank_page_def)
  next
    case (Inr raw)
    show ?thesis
    proof (cases "''date'' \<in> set (columns (normalize lib raw)) \<and> ''close'' \<in> set (columns (normalize lib raw))")
      case False
      with Some Inr assms show ?thesis by (auto simp: dashboard_def filter_statement_def blank_page_def Let_def)
    next
      case True
      show ?thesis
      proof (cases "load lib (normalize lib raw)")
        case (Inl e)
        with Some Inr True assms show ?thesis by (simp add: dashboard_def filter_statement_def blank_page_def Let_def)
      next
        case ld: (Inr df)
        show ?thesis
        proof (cases "symbol_of fname")
          case (Inl e)
          with Some Inr True ld assms show ?thesis by (simp add: dashboard_def filter_statement_def blank_page_def Let_def)
        next
          case smb: (Inr smb)
          show ?thesis
          proof (cases "slider (min_date df) (max_date df) pick")
            case (Inl e)
            with Some Inr True ld smb assms show ?thesis
              by (simp add: dashboard_def filter_statement_def blank_page_def Let_def)
          next
            case sl: (Inr dr)
            from Some Inr True ld smb sl
            have d: "dashboard lib fs sel pick chosen = tabs lib fs sel smb dr (range_filter dr df) chosen"
              by (simp add: dashboard_def filter_statement_def Let_def)
            from assms d have c: "Plotly_chart f \<in> set (compare_tab (tabs lib fs sel smb dr (range_filter dr df) chosen))"
              by simp
            then have "snd (tab1 (range_filter dr df)) = None
                \<and> line_tab (tabs lib fs sel smb dr (range_filter dr df) chosen) = fst (tab1 (range_filter dr df))
                \<and> compare_tab (tabs lib fs sel smb dr (range_filter dr df) chosen)
                     = fst (tab3 lib fs sel dr (range_filter dr df) chosen)"
              by (auto simp: tabs_def blank_page_def split: prod.splits option.splits)
            with d have "snd (tab1 (range_filter dr df)) = None
                \<and> line_tab (dashboard lib fs sel pick chosen) = fst (tab1 (range_filter dr df))
                \<and> compare_tab (dashboard lib fs sel pick chosen)
                     = fst (tab3 lib fs sel dr (range_filter dr df) chosen)"
              by simp
            with Some Inr True ld sl show ?thesis by blast
          qed
        qed
      qed
    qed
  qed
qed

text \<open>
  Claim C7. When no company is picked for comparison, the chart of the comparison tab
  shows what the chart of the line tab shows: the same traces (the dates and closing
  prices of the filtered series), hence the same points and the same extent on both
  axes, as a line chart over the same date axis. The two charts differ in what
  \<^verbatim>\<open>px.line\<close> is given besides the data: the line tab has a title, the comparison tab
  labels its value axis with the company.
\<close>

theorem compare_without_others:
  assumes "Plotly_chart f3 \<in> set (compare_tab (dashboard lib fs selected_company pick []))"
  shows "\<exists>f1. Plotly_chart f1 \<in> set (line_tab (dashboard lib fs selected_company pick []))
           \<and> traces f3 = traces f1 \<and> plotted f3 = plotted f1
           \<and> axis_bounds f3 = axis_bounds f1
           \<and> kind f3 = kind f1 \<and> x_title f3 = x_title f1"
proof -
  from dashboard_compare_tab [OF assms] obtain df dr where
    t1: "snd (tab1 (range_filter dr df)) = None"
    and l: "line_tab (dashboard lib fs selected_company pick []) = fst (tab1 (range_filter dr df))"
    and c: "compare_tab (dashboard lib fs selected_company pick [])
             = fst (tab3 lib fs selected_company dr (range_filter dr df) [])"
    by blast
  from tab1_ok [OF t1] obtain f1 where
    e1: "fst (tab1 (range_filter dr df)) = [Subheader ''Interactive Line Chart'', Plotly_chart f1]"
    and p1: "px LineChart (range_filter dr df) ''close'' [] (Some ''Closing Price Over Time'') = Inr f1"
    by blast
  from assms c have "Plotly_chart f3 \<in> set (fst (tab3 lib fs selected_company dr (range_filter dr df) []))"
    by simp
  from tab3_chart [OF this] obtain fig where
    p3: "px LineChart (range_filter dr df) ''close'' [(''close'', selected_company)] None = Inr fig"
    and o: "overlay lib fs dr (multiselect (compare_options selected_company) []) fig = Inr f3"
    by blast
  from o have "fig = f3" by (simp add: multiselect_def)
  with p3 have p3': "px LineChart (range_filter dr df) ''close'' [(''close'', selected_company)] None = Inr f3"
    by simp
  from p1 p3' have tr: "traces f3 = traces f1" and k: "kind f3 = kind f1" and x: "x_title f3 = x_title f1"
    by (auto simp: px_def split: sum.splits)
  from tr have "plotted f3 = plotted f1" "axis_bounds f3 = axis_bounds f1"
    by (simp_all add: plotted_def axis_bounds_def)
  with tr k x l e1 show ?thesis by auto
qed

theorem compare_without_others_witness:
  "Plotly_chart aapl_compare_figure
     \<in> set (compare_tab (dashboard sample_library sample_fs ''Apple (AAPL)'' (Some (19725, 19726)) []))
   \<and> (\<exists>f1. Plotly_chart f1
              \<in> set (line_tab (dashboard sample_library sample_fs ''Apple (AAPL)'' (Some (19725, 19726)) []))
           \<and> traces aapl_compare_figure = traces f1
           \<and> axis_bounds aapl_compare_figure = axis_bounds f1)
   \<and> axis_bounds aapl_compare_figure
        = ((Some (midnight 19725), Some (midnight 19726)), Some (11, 12))"
proof -
  have a: "Plotly_chart aapl_compare_figure
     \<in> set (compare_tab (dashboard sample_library sample_fs ''Apple (AAPL)'' (Some (19725, 19726)) []))"
    by code_simp
  have b: "axis_bounds aapl_compare_figure
        = ((Some (midnight 19725), Some (midnight 19726)), Some (11, 12))"
    by code_simp
  from compare_without_others [OF a] a b show ?thesis by blast
qed

lemma overlay_traces:
  assumes "overlay lib fs dr others fig = Inr fig'"
  shows "\<exists>shown. map (\<lambda>other. entity_trace lib fs dr other other) others = map Inr shown
           \<and> traces fig' = traces fig @ List.map_filter (\<lambda>t. t) shown"
  using assms
proof (induction others arbitrary: fig)
  case Nil
  then show ?case by (simp add: List.map_filter_def)
next
  case (Cons other rest)
  from Cons.prems obtain fname raw where
    f: "map_of files other = Some fname" and r: "read_csv fs fname = Inr raw"
    by (auto split: option.splits sum.splits)
  show ?case
  proof (cases "''date'' \<in> set (columns (normalize lib raw)) \<and> ''close'' \<in> set (columns (normalize lib raw))")
    case False
    with f r Cons.prems have "overlay lib fs dr rest fig = Inr fig'"
      by (auto simp: Let_def)
    from Cons.IH [OF this] obtain shown where
      s: "map (\<lambda>other. entity_trace lib fs dr other other) rest = map Inr shown"
      and t: "traces fig' = traces fig @ List.map_filter (\<lambda>t. t) shown"
      by blast
    from False f r have e: "entity_trace lib fs dr other other = Inr None"
      by (auto simp: entity_trace_def)
    from s t e show ?thesis
      by (intro exI [of _ "None # shown"]) (simp add: List.map_filter_def)
  next
    case True
    with f r Cons.prems obtain converted y where
      c: "assign_date lib (normalize lib raw) = Inr converted"
      and y: "close_of (range_filter dr (sort_values converted)) ''close'' = Inr y"
      and o: "overlay lib fs dr rest
                (add_scatter fig (map fst (drows (range_filter dr (sort_values converted)))) y other)
              = Inr fig'"
      by (auto simp: Let_def split: sum.splits)
    let ?t = "\<lparr>tname = other, txs = map fst (drows (range_filter dr (sort_values converted))), tys = y\<rparr>"
    from Cons.IH [OF o] obtain shown where
      s: "map (\<lambda>other. entity_trace lib fs dr other other) rest = map Inr shown"
      and t: "traces fig' = (traces fig @ [?t]) @ List.map_filter (\<lambda>t. t) shown"
      by (auto simp: add_scatter_def)
    from True f r c y have e: "entity_trace lib fs dr other other = Inr (Some ?t)"
      by (simp add: entity_trace_def load_def)
    from s t e show ?thesis
      by (intro exI [of _ "Some ?t # shown"]) (simp add: List.map_filter_def)
  qed
qed

lemma overlay_skip:
  assumes "entity_trace lib fs dr other other = Inr None"
  shows "overlay lib fs dr (other # rest) fig = overlay lib fs dr rest fig"
  using assms
  by (auto simp: entity_trace_def Let_def split: option.splits sum.splits if_splits)

lemma compare_options_set:
  "selected_company \<notin> set (compare_options selected_company)
   \<and> set (compare_options selected_company) = set (map fst files) - {selected_company}"
  by (auto simp: compare_options_def)

lemma sorted_range_dates:
  assumes "map fst xs = map Some ts @ replicate k None" and "sorted ts"
  shows "\<exists>us. map fst (filter (\<lambda>x. ge_stamp (fst x) lo \<and> le_stamp (fst x) hi) xs) = map Some us
           \<and> sorted us \<and> (\<forall>u \<in> set us. lo \<le> u \<and> u \<le> hi)"
proof -
  let ?p = "\<lambda>d. ge_stamp d lo \<and> le_stamp d hi"
  have "map fst (filter (\<lambda>x. ?p (fst x)) xs) = filter ?p (map fst xs)"
    by (simp add: filter_map comp_def)
  also have "\<dots> = filter ?p (map Some ts) @ filter ?p (replicate k None)"
    by (simp add: assms(1))
  also have "filter ?p (replicate k None) = []"
    by (simp add: ge_stamp_def)
  also have "filter ?p (map Some ts) = map Some (filter (\<lambda>u. lo \<le> u \<and> u \<le> hi) ts)"
    by (simp add: filter_map comp_def ge_stamp_def le_stamp_def)
  finally have "map fst (filter (\<lambda>x. ?p (fst x)) xs) = map Some (filter (\<lambda>u. lo \<le> u \<and> u \<le> hi) ts)"
    by simp
  moreover have "sorted (filter (\<lambda>u. lo \<le> u \<and> u \<le> hi) ts)"
    using assms(2) by (rule sorted_wrt_filter)
  ultimately show ?thesis
    by (intro exI [of _ "filter (\<lambda>u. lo \<le> u \<and> u \<le> hi) ts"]) simp
qed

lemma getitem_column:
  "getitem cols rs c = Inr col \<Longrightarrow> \<exists>j. positions c cols 0 = [j] \<and> col = map (cell_at j) rs"
  by (auto simp: getitem_def split: list.splits)

lemma entity_trace_drawn:
  assumes "entity_trace lib fs dr label company = Inr (Some t)"
  shows "\<exists>fname raw dates ds closes.
           map_of files company = Some fname \<and> fs fname = Some (Table raw)
         \<and> getitem (map (\<lambda>col. str_lower lib (str_strip lib col)) (columns raw)) (rows raw) ''date''
             = Inr dates
         \<and> to_datetime lib dates = Inr ds
         \<and> getitem (map (\<lambda>col. str_lower lib (str_strip lib col)) (columns raw)) (rows raw) ''close''
             = Inr closes
         \<and> tname t = label
         \<and> (\<exists>us. txs t = map Some us \<and> sorted us
                \<and> (\<forall>u \<in> set us. midnight (fst dr) \<le> u \<and> u \<le> midnight (snd dr)))
         \<and> mset (zip (txs t) (tys t))
             = mset (filter (\<lambda>p. \<exists>u. fst p = Some u \<and> midnight (fst dr) \<le> u \<and> u \<le> midnight (snd dr))
                       (zip ds closes))"
proof -
  from assms obtain fname raw df y where
    f: "map_of files company = Some fname" and r: "read_csv fs fname = Inr raw"
    and ld: "load lib (normalize lib raw) = Inr df"
    and y: "close_of (range_filter dr df) ''close'' = Inr y"
    and t: "t = \<lparr>tname = label, txs = map fst (drows (range_filter dr df)), tys = y\<rparr>"
    by (auto simp: entity_trace_def split: option.splits sum.splits if_splits)
  let ?cols = "map (\<lambda>col. str_lower lib (str_strip lib col)) (columns raw)"
  from r have tb: "fs fname = Some (Table raw)"
    by (auto simp: read_csv_def split: option.splits csv_file.splits)
  from ld obtain conv where c: "assign_date lib (normalize lib raw) = Inr conv"
    and df: "df = sort_values conv"
    by (auto simp: load_def split: sum.splits)
  from c obtain dates ds where
    d: "getitem ?cols (rows raw) ''date'' = Inr dates" and ds: "to_datetime lib dates = Inr ds"
    and len: "length ds = length (rows raw)"
    and conv: "conv = \<lparr>dcolumns = ?cols, drows = zip ds (rows raw)\<rparr>"
    by (auto simp: assign_date_def normalize_def split: sum.splits if_splits)
  let ?S = "drows (sort_values conv)"
  let ?P = "\<lambda>x. ge_stamp (fst x) (midnight (fst dr)) \<and> le_stamp (fst x) (midnight (snd dr))"
  let ?R = "filter ?P ?S"
  have rows: "drows (range_filter dr df) = ?R" and cols: "dcolumns (range_filter dr df) = ?cols"
    by (simp_all add: range_filter_def df conv sort_values_def)
  from y rows cols have "getitem ?cols (map snd ?R) ''close'' = Inr y"
    by (simp add: close_of_def)
  from getitem_column [OF this] obtain j where j: "positions ''close'' ?cols 0 = [j]"
    and yj: "y = map (cell_at j) (map snd ?R)"
    by blast
  let ?closes = "map (cell_at j) (rows raw)"
  from j have cl: "getitem ?cols (rows raw) ''close'' = Inr ?closes"
    by (simp add: getitem_def)
  from sort_values_dates [of conv] obtain ts k where
    "map fst ?S = map Some ts @ replicate k None" "sorted ts"
    by blast
  from sorted_range_dates [OF this, of "midnight (fst dr)" "midnight (snd dr)"] rows t
  have srt: "\<exists>us. txs t = map Some us \<and> sorted us
                \<and> (\<forall>u \<in> set us. midnight (fst dr) \<le> u \<and> u \<le> midnight (snd dr))"
    by simp
  let ?g = "\<lambda>x. (fst x, cell_at j (snd x))"
  let ?Q = "\<lambda>p. \<exists>u. fst p = Some u \<and> midnight (fst dr) \<le> u \<and> u \<le> midnight (snd dr)"
  have PQ: "?P = ?Q"
    by (auto simp: fun_eq_iff ge_stamp_def le_stamp_def split: option.splits)
  have "zip (txs t) (tys t) = map ?g ?R"
    by (simp add: t rows yj zip_map_map zip_same_conv_map)
  then have "mset (zip (txs t) (tys t)) = image_mset ?g (filter_mset ?P (mset ?S))"
    by simp
  also have "mset ?S = mset (zip ds (rows raw))"
    by (simp add: sort_values_mset conv)
  also have "image_mset ?g (filter_mset ?P (mset (zip ds (rows raw))))
             = mset (map ?g (filter ?P (zip ds (rows raw))))"
    by simp
  also have "map ?g (filter ?P (zip ds (rows raw))) = filter ?Q (map ?g (zip ds (rows raw)))"
    by (simp add: filter_map comp_def PQ)
  also have "map ?g (zip ds (rows raw)) = zip ds ?closes"
    by (simp add: zip_map2 case_prod_beta)
  finally have ms: "mset (zip (txs t) (tys t)) = mset (filter ?Q (zip ds ?closes))" .
  from t have nm: "tname t = label" by simp
  from f tb d ds cl nm srt ms show ?thesis by blast
qed

lemma entity_trace_none:
  "entity_trace lib fs dr label company = Inr None
     \<longleftrightarrow> (\<exists>fname raw. map_of files company = Some fname \<and> fs fname = Some (Table raw)
            \<and> (''date'' \<notin> set (map (\<lambda>col. str_lower lib (str_strip lib col)) (columns raw))
               \<or> ''close'' \<notin> set (map (\<lambda>col. str_lower lib (str_strip lib col)) (columns raw))))"
  by (auto simp: entity_trace_def read_csv_def normalize_def
           split: option.splits sum.splits csv_file.splits)

text \<open>
  Claim C8. When the comparison tab holds its chart, there is one range, the one the
  slider returned for the selected company's series, such that the first trace is the
  selected company's and the traces after it are, in the order picked, those of the other
  picked companies. Each trace comes from the company's own file: its label is the
  company, its points are exactly the pairs of date and closing price of the file (the
  columns found under the trimmed and lower-cased labels, the dates converted) whose
  date lies within the range, and its dates are in non-decreasing order. A picked company
  gives no trace exactly when its file lacks \<^verbatim>\<open>date\<close> or \<^verbatim>\<open>close\<close> under the normalized
  labels; then the loop goes on and nothing else is written: the tab holds its subheader,
  the selector and the chart only. The selector offers every company but the selected one.
\<close>

theorem compare_overlay:
  assumes "Plotly_chart f \<in> set (compare_tab (dashboard lib fs selected_company pick chosen))"
  shows "\<exists>date_range primary shown.
           entity_trace lib fs date_range [] selected_company = Inr (Some primary)
         \<and> map (\<lambda>other. entity_trace lib fs date_range other other)
               (multiselect (compare_options selected_company) chosen) = map Inr shown
         \<and> traces f = primary # List.map_filter (\<lambda>t. t) shown
         \<and> (\<exists>fname raw df. map_of files selected_company = Some fname
               \<and> read_csv fs fname = Inr raw \<and> load lib (normalize lib raw) = Inr df
               \<and> slider (min_date df) (max_date df) pick = Inr date_range)
         \<and> (\<forall>label company t. entity_trace lib fs date_range label company = Inr (Some t) \<longrightarrow>
               (\<exists>fname raw dates ds closes.
                   map_of files company = Some fname \<and> fs fname = Some (Table raw)
                 \<and> getitem (map (\<lambda>col. str_lower lib (str_strip lib col)) (columns raw)) (rows raw) ''date''
                     = Inr dates
                 \<and> to_datetime lib dates = Inr ds
                 \<and> getitem (map (\<lambda>col. str_lower lib (str_strip lib col)) (columns raw)) (rows raw) ''close''
                     = Inr closes
                 \<and> tname t = label
                 \<and> (\<exists>us. txs t = map Some us \<and> sorted us
                        \<and> (\<forall>u \<in> set us. midnight (fst date_range) \<le> u \<and> u \<le> midnight (snd date_range)))
                 \<and> mset (zip (txs t) (tys t))
                     = mset (filter (\<lambda>p. \<exists>u. fst p = Some u \<and> midnight (fst date_range) \<le> u
                                            \<and> u \<le> midnight (snd date_range))
                               (zip ds closes))))
         \<and> (\<forall>label company. entity_trace lib fs date_range label company = Inr None \<longleftrightarrow>
               (\<exists>fname raw. map_of files company = Some fname \<and> fs fname = Some (Table raw)
                  \<and> (''date'' \<notin> set (map (\<lambda>col. str_lower lib (str_strip lib col)) (columns raw))
                     \<or> ''close'' \<notin> set (map (\<lambda>col. str_lower lib (str_strip lib col)) (columns raw)))))
         \<and> (\<forall>other rest fig. entity_trace lib fs date_range other other = Inr None
               \<longrightarrow> overlay lib fs date_range (other # rest) fig = overlay lib fs date_range rest fig)
         \<and> compare_tab (dashboard lib fs selected_company pick chosen)
             = [Subheader ''Compare with Other Companies'',
                Multiselect ''Select companies to compare'' (compare_options selected_company),
                Plotly_chart f]
         \<and> selected_company \<notin> set (compare_options selected_company)
         \<and> set (compare_options selected_company) = set (map fst files) - {selected_company}
         \<and> set (multiselect (compare_options selected_company) chosen)
             \<subseteq> set (compare_options selected_company)"
proof -
  from dashboard_compare_tab [OF assms] obtain fname raw df dr where
    f: "map_of files selected_company = Some fname" and r: "read_csv fs fname = Inr raw"
    and g: "''date'' \<in> set (columns (normalize lib raw)) \<and> ''close'' \<in> set (columns (normalize lib raw))"
    and ld: "load lib (normalize lib raw) = Inr df"
    and sl: "slider (min_date df) (max_date df) pick = Inr dr"
    and c: "compare_tab (dashboard lib fs selected_company pick chosen)
             = fst (tab3 lib fs selected_company dr (range_filter dr df) chosen)"
    by blast
  let ?others = "multiselect (compare_options selected_company) chosen"
  from assms c have "Plotly_chart f \<in> set (fst (tab3 lib fs selected_company dr (range_filter dr df) chosen))"
    by simp
  from tab3_chart [OF this] obtain fig where
    p: "px LineChart (range_filter dr df) ''close'' [(''close'', selected_company)] None = Inr fig"
    and o: "overlay lib fs dr ?others fig = Inr f"
    and els: "fst (tab3 lib fs selected_company dr (range_filter dr df) chosen)
               = [Subheader ''Compare with Other Companies'',
                  Multiselect ''Select companies to compare'' (compare_options selected_company),
                  Plotly_chart f]"
    by blast
  from p obtain y where y: "close_of (range_filter dr df) ''close'' = Inr y"
    and tf: "traces fig = [\<lparr>tname = [], txs = map fst (drows (range_filter dr df)), tys = y\<rparr>]"
    by (auto simp: px_def split: sum.splits)
  let ?primary = "\<lparr>tname = [], txs = map fst (drows (range_filter dr df)), tys = y\<rparr>"
  from f r g ld y have e: "entity_trace lib fs dr [] selected_company = Inr (Some ?primary)"
    by (simp add: entity_trace_def)
  from overlay_traces [OF o] tf obtain shown where
    s: "map (\<lambda>other. entity_trace lib fs dr other other) ?others = map Inr shown"
    and t: "traces f = ?primary # List.map_filter (\<lambda>t. t) shown"
    by auto
  from f r ld sl have w: "\<exists>fname raw df. map_of files selected_company = Some fname
               \<and> read_csv fs fname = Inr raw \<and> load lib (normalize lib raw) = Inr df
               \<and> slider (min_date df) (max_date df) pick = Inr dr"
    by blast
  have dn: "\<forall>label company t. entity_trace lib fs dr label company = Inr (Some t) \<longrightarrow>
               (\<exists>fname raw dates ds closes.
                   map_of files company = Some fname \<and> fs fname = Some (Table raw)
                 \<and> getitem (map (\<lambda>col. str_lower lib (str_strip lib col)) (columns raw)) (rows raw) ''date''
                     = Inr dates
                 \<and> to_datetime lib dates = Inr ds
                 \<and> getitem (map (\<lambda>col. str_lower lib (str_strip lib col)) (columns raw)) (rows raw) ''close''
                     = Inr closes
                 \<and> tname t = label
                 \<and> (\<exists>us. txs t = map Some us \<and> sorted us
                        \<and> (\<forall>u \<in> set us. midnight (fst dr) \<le> u \<and> u \<le> midnight (snd dr)))
                 \<and> mset (zip (txs t) (tys t))
                     = mset (filter (\<lambda>p. \<exists>u. fst p = Some u \<and> midnight (fst dr) \<le> u
                                            \<and> u \<le> midnight (snd dr))
                               (zip ds closes)))"
    by (intro allI impI) (rule entity_trace_drawn)
  have nn: "\<forall>label company. entity_trace lib fs dr label company = Inr None \<longleftrightarrow>
               (\<exists>fname raw. map_of files company = Some fname \<and> fs fname = Some (Table raw)
                  \<and> (''date'' \<notin> set (map (\<lambda>col. str_lower lib (str_strip lib col)) (columns raw))
                     \<or> ''close'' \<notin> set (map (\<lambda>col. str_lower lib (str_strip lib col)) (columns raw))))"
    by (intro allI) (rule entity_trace_none)
  have k: "\<forall>other rest fig. entity_trace lib fs dr other other = Inr None
               \<longrightarrow> overlay lib fs dr (other # rest) fig = overlay lib fs dr rest fig"
    using overlay_skip by blast
  have m: "set ?others \<subseteq> set (compare_options selected_company)"
    by (auto simp: multiselect_def)
  from c els have ct: "compare_tab (dashboard lib fs selected_company pick chosen)
             = [Subheader ''Compare with Other Companies'',
                Multiselect ''Select companies to compare'' (compare_options selected_company),
                Plotly_chart f]"
    by simp
  note o1 = compare_options_set [of selected_company, THEN conjunct1]
  note o2 = compare_options_set [of selected_company, THEN conjunct2]
  show ?thesis
    apply (rule exI [of _ dr], rule exI [of _ ?primary], rule exI [of _ shown])
    apply (intro conjI)
    apply (rule e, rule s, rule t, rule w, rule dn, rule nn, rule k, rule ct, rule o1, rule o2, rule m)
    done
qed

theorem compare_overlay_witness:
  "Plotly_chart (aapl_compare_figure\<lparr>traces := traces aapl_compare_figure @ [goog_trace]\<rparr>)
     \<in> set (compare_tab (dashboard sample_library sample_fs ''Apple (AAPL)'' (Some (19725, 19726))
                           [''Google (GOOG)'', ''Boeing (BA)'', ''Apple (AAPL)'']))
   \<and> multiselect (compare_options ''Apple (AAPL)'') [''Google (GOOG)'', ''Boeing (BA)'', ''Apple (AAPL)'']
       = [''Google (GOOG)'', ''Boeing (BA)'']
   \<and> entity_trace sample_library sample_fs (19725, 19726) ''Google (GOOG)'' ''Google (GOOG)''
       = Inr (Some goog_trace)
   \<and> entity_trace sample_library sample_fs (19725, 19726) ''Boeing (BA)'' ''Boeing (BA)'' = Inr None
   \<and> (\<exists>date_range primary shown.
         entity_trace sample_library sample_fs date_range [] ''Apple (AAPL)'' = Inr (Some primary)
       \<and> map (\<lambda>other. entity_trace sample_library sample_fs date_range other other)
             [''Google (GOOG)'', ''Boeing (BA)''] = map Inr shown
       \<and> traces aapl_compare_figure @ [goog_trace] = primary # List.map_filter (\<lambda>t. t) shown
       \<and> (\<exists>us. txs primary = map Some us \<and> sorted us))"
proof -
  have a: "Plotly_chart (aapl_compare_figure\<lparr>traces := traces aapl_compare_figure @ [goog_trace]\<rparr>)
     \<in> set (compare_tab (dashboard sample_library sample_fs ''Apple (AAPL)'' (Some (19725, 19726))
                           [''Google (GOOG)'', ''Boeing (BA)'', ''Apple (AAPL)'']))"
    by code_simp
  have b: "multiselect (compare_options ''Apple (AAPL)'') [''Google (GOOG)'', ''Boeing (BA)'', ''Apple (AAPL)'']
       = [''Google (GOOG)'', ''Boeing (BA)'']"
    by code_simp
  have c: "entity_trace sample_library sample_fs (19725, 19726) ''Google (GOOG)'' ''Google (GOOG)''
       = Inr (Some goog_trace)"
    by code_simp
  have d: "entity_trace sample_library sample_fs (19725, 19726) ''Boeing (BA)'' ''Boeing (BA)'' = Inr None"
    by code_simp
  from compare_overlay [OF a] have
    "\<exists>date_range primary shown.
         entity_trace sample_library sample_fs date_range [] ''Apple (AAPL)'' = Inr (Some primary)
       \<and> map (\<lambda>other. entity_trace sample_library sample_fs date_range other other)
             [''Google (GOOG)'', ''Boeing (BA)''] = map Inr shown
       \<and> traces aapl_compare_figure @ [goog_trace] = primary # List.map_filter (\<lambda>t. t) shown
       \<and> (\<exists>us. txs primary = map Some us \<and> sorted us)"
  proof (elim exE conjE)
    fix date_range primary shown fname raw df
    assume p: "entity_trace sample_library sample_fs date_range [] ''Apple (AAPL)'' = Inr (Some primary)"
      and s: "map (\<lambda>other. entity_trace sample_library sample_fs date_range other other)
              (multiselect (compare_options ''Apple (AAPL)'')
                 [''Google (GOOG)'', ''Boeing (BA)'', ''Apple (AAPL)'']) = map Inr shown"
      and t: "traces (aapl_compare_figure\<lparr>traces := traces aapl_compare_figure @ [goog_trace]\<rparr>)
              = primary # List.map_filter (\<lambda>t. t) shown"
      and dn: "\<forall>label company t. entity_trace sample_library sample_fs date_range label company = Inr (Some t) \<longrightarrow>
               (\<exists>fname raw dates ds closes.
                   map_of files company = Some fname \<and> sample_fs fname = Some (Table raw)
                 \<and> getitem (map (\<lambda>col. str_lower sample_library (str_strip sample_library col)) (columns raw)) (rows raw) ''date''
                     = Inr dates
                 \<and> to_datetime sample_library dates = Inr ds
                 \<and> getitem (map (\<lambda>col. str_lower sample_library (str_strip sample_library col)) (columns raw)) (rows raw) ''close''
                     = Inr closes
                 \<and> tname t = label
                 \<and> (\<exists>us. txs t = map Some us \<and> sorted us
                        \<and> (\<forall>u \<in> set us. midnight (fst date_range) \<le> u \<and> u \<le> midnight (snd date_range)))
                 \<and> mset (zip (txs t) (tys t))
                     = mset (filter (\<lambda>p. \<exists>u. fst p = Some u \<and> midnight (fst date_range) \<le> u
                                            \<and> u \<le> midnight (snd date_range))
                               (zip ds closes)))"
    from s have s': "map (\<lambda>other. entity_trace sample_library sample_fs date_range other other)
              [''Google (GOOG)'', ''Boeing (BA)''] = map Inr shown"
      by (simp only: b)
    from t have t': "traces aapl_compare_figure @ [goog_trace] = primary # List.map_filter (\<lambda>t. t) shown"
      by simp
    from dn [rule_format, OF p] have u: "\<exists>us. txs primary = map Some us \<and> sorted us"
      by (elim exE conjE) (intro exI conjI)
    show ?thesis
      apply (rule exI [of _ date_range], rule exI [of _ primary], rule exI [of _ shown])
      apply (intro conjI)
      apply (rule p, rule s', rule t', rule u)
      done
  qed
  with a b c d show ?thesis
    by (intro conjI)
qed

end
